theory Spec2Isabelle
  imports Main
begin

section \<open>Data crossing the client/server boundary\<close>

text \<open>
  The client of \<^verbatim>\<open>main.cpp\<close> is modelled as a state-passing program over an explicit
  world: the operator's answers on standard input, the events the process emits (text on
  the two output streams and every libpq call), and the database server as a function of
  the events so far. C++ \<^verbatim>\<open>int\<close> values are \<open>int\<close> with the 32-bit range written out
  where the source checks or loses it.
\<close>

record Book =
  id' :: int
  title :: string
  author :: string
  publisher :: string
  year :: int

datatype exn = runtime_error string | invalid_argument string | out_of_range string

fun what :: "exn \<Rightarrow> string" where
  "what (runtime_error m) = m"
| "what (invalid_argument m) = m"
| "what (out_of_range m) = m"

definition INT_MIN :: int where
  "INT_MIN = - 2147483648"

definition INT_MAX :: int where
  "INT_MAX = 2147483647"

definition endl :: string where
  "endl = [CHR 0x0A]"

subsection \<open>Integers as text: \<^verbatim>\<open>std::to_string\<close> and \<^verbatim>\<open>std::stoi\<close>\<close>

definition isdigit :: "char \<Rightarrow> bool" where
  "isdigit c = (48 \<le> (of_char c :: nat) \<and> (of_char c :: nat) \<le> 57)"

definition isspace :: "char \<Rightarrow> bool" where
  "isspace c = ((of_char c :: nat) = 32 \<or> (9 \<le> (of_char c :: nat) \<and> (of_char c :: nat) \<le> 13))"

definition digit_char :: "nat \<Rightarrow> char" where
  "digit_char d = char_of (48 + d)"

function digits :: "nat \<Rightarrow> string" where
  "digits n = (if n < 10 then [digit_char n] else digits (n div 10) @ [digit_char (n mod 10)])"
  by pat_completeness auto
termination
  by (relation "measure (\<lambda>n. n)") auto

declare digits.simps [simp del]

text \<open>\<^verbatim>\<open>std::to_string(int)\<close>: a minus sign for a negative value, then the decimal digits.\<close>

definition to_string :: "int \<Rightarrow> string" where
  "to_string n = (if n < 0 then CHR ''-'' # digits (nat (- n)) else digits (nat n))"

text \<open>The accumulation loop of \<^verbatim>\<open>strtol\<close> in base 10 over the digits it accepted.\<close>

fun decimal :: "nat \<Rightarrow> string \<Rightarrow> nat" where
  "decimal acc [] = acc"
| "decimal acc (c # cs) = decimal (acc * 10 + (of_char c - 48)) cs"

text \<open>
  \<^verbatim>\<open>std::stoi(str)\<close>: leading white space is skipped, one sign is accepted, the longest run
  of digits is converted and what follows is ignored; no digit at all raises
  \<^verbatim>\<open>invalid_argument\<close>, a value outside \<^verbatim>\<open>int\<close> raises \<^verbatim>\<open>out_of_range\<close>.
\<close>

definition stoi :: "string \<Rightarrow> exn + int" where
  "stoi str =
     (let s1 = dropWhile isspace str;
          neg = (case s1 of [] \<Rightarrow> False | c # _ \<Rightarrow> c = CHR ''-'');
          s2 = (case s1 of [] \<Rightarrow> [] | c # cs \<Rightarrow> if c = CHR ''-'' \<or> c = CHR ''+'' then cs else s1);
          ds = takeWhile isdigit s2
      in if ds = [] then Inl (invalid_argument ''stoi'')
         else (let v = (if neg then - int (decimal 0 ds) else int (decimal 0 ds))
               in if v < INT_MIN \<or> INT_MAX < v then Inl (out_of_range ''stoi'') else Inr v))"

subsection \<open>libpq as seen by the client\<close>

datatype PGconn = conn' | connTemp

datatype ConnStatusType = CONNECTION_OK | CONNECTION_BAD

datatype ExecStatusType =
    PGRES_EMPTY_QUERY | PGRES_COMMAND_OK | PGRES_TUPLES_OK | PGRES_COPY_OUT | PGRES_COPY_IN
  | PGRES_BAD_RESPONSE | PGRES_NONFATAL_ERROR | PGRES_FATAL_ERROR

text \<open>
  A result row of \<^verbatim>\<open>sp_search_book_by_title\<close>, which is declared
  \<^verbatim>\<open>RETURNS TABLE(id, title, author, publisher, year)\<close>: five columns, each the text libpq
  hands out (the empty string for SQL NULL).
\<close>

record tuple =
  col0 :: string
  col1 :: string
  col2 :: string
  col3 :: string
  col4 :: string

record PGresult =
  resultStatus :: ExecStatusType
  tuples :: "tuple list"

text \<open>
  What the server sends back for one command: the result, the connection's error message
  after it, and the notices it raised while running it.
\<close>

record reply =
  reply_result :: PGresult
  reply_message :: string
  reply_notices :: "string list"

datatype event =
    Stdout string
  | Stderr string
  | ConnectDb string
  | SetDbLogin string string string string string
  | SetNoticeProcessor PGconn
  | Exec PGconn string
  | ExecParams PGconn string "string list"
  | Finish PGconn

text \<open>The server: its answer to a connection attempt and to a command, given all events so far
  (the attempt or command itself is the last one).\<close>

record backend =
  accept :: "event list \<Rightarrow> ConnStatusType \<times> string"
  respond :: "event list \<Rightarrow> reply"

datatype processor = DefaultProcessor | MyNoticeProcessor

text \<open>One answer of the operator: a line of text, or an integer followed by the line's end.\<close>

datatype answer = Line string | Num int

section \<open>The process state\<close>

text \<open>
  \<open>trace\<close> pairs every event with the value \<open>g_printNotices\<close> had when it happened.
  \<open>dbName'\<close>, \<open>user'\<close>, \<open>password'\<close> are the members of \<^verbatim>\<open>DBManager\<close>;
  \<open>isAdmin\<close>, \<open>tableName\<close>, \<open>exitFlag\<close> are the locals of \<^verbatim>\<open>main\<close>.
\<close>

record state =
  g_printNotices :: bool
  cin :: "answer list"
  trace :: "(bool \<times> event) list"
  backend :: backend
  errorMessage :: "PGconn \<Rightarrow> string"
  processor :: "PGconn \<Rightarrow> processor"
  dbName' :: string
  user' :: string
  password' :: string
  isAdmin :: bool
  tableName :: string
  exitFlag :: bool

text \<open>
  A statement ends with a value, with a C++ exception, or the model stops: the process
  waits for input that has not come, or the operator's answer is not of the kind the
  statement reads (text where an \<^verbatim>\<open>int\<close> is extracted, an integer outside \<^verbatim>\<open>int\<close>).
  There the source stores 0 or the nearest limit, leaves the stream failed and goes on;
  every later extraction leaves its variable as it was, and the next pass reads a choice
  that was never set. The model follows a run up to that answer and no further.
\<close>

datatype halt = AwaitingInput | MalformedInput

datatype 'a outcome = Value 'a | Raise exn | Halt halt

type_synonym 'a io = "state \<Rightarrow> 'a outcome \<times> state"

definition io_return :: "'a \<Rightarrow> 'a io" where
  "io_return a s = (Value a, s)"

definition io_throw :: "exn \<Rightarrow> 'a io" where
  "io_throw e s = (Raise e, s)"

definition io_bind :: "'a io \<Rightarrow> ('a \<Rightarrow> 'b io) \<Rightarrow> 'b io" where
  "io_bind m f s =
     (case m s of
        (Value a, s1) \<Rightarrow> f a s1
      | (Raise e, s1) \<Rightarrow> (Raise e, s1)
      | (Halt h, s1) \<Rightarrow> (Halt h, s1))"

definition io_then :: "unit io \<Rightarrow> 'b io \<Rightarrow> 'b io" where
  "io_then m k = io_bind m (\<lambda>_. k)"

definition try_catch :: "'a io \<Rightarrow> (exn \<Rightarrow> 'a io) \<Rightarrow> 'a io" where
  "try_catch m handler s =
     (case m s of
        (Raise e, s1) \<Rightarrow> handler e s1
      | (Value a, s1) \<Rightarrow> (Value a, s1)
      | (Halt h, s1) \<Rightarrow> (Halt h, s1))"

definition events :: "state \<Rightarrow> event list" where
  "events s = map snd (trace s)"

definition emit :: "event \<Rightarrow> unit io" where
  "emit e s = (Value (), s\<lparr>trace := trace s @ [(g_printNotices s, e)]\<rparr>)"

definition cout :: "string \<Rightarrow> unit io" where
  "cout text = emit (Stdout text)"

definition cerr :: "string \<Rightarrow> unit io" where
  "cerr text = emit (Stderr text)"

text \<open>\<^verbatim>\<open>getline(cin, s)\<close>\<close>

definition getline :: "string io" where
  "getline s =
     (case cin s of
        [] \<Rightarrow> (Halt AwaitingInput, s)
      | Line l # rest \<Rightarrow> (Value l, s\<lparr>cin := rest\<rparr>)
      | Num n # rest \<Rightarrow> (Halt MalformedInput, s))"

text \<open>\<^verbatim>\<open>cin >> n; cin.ignore();\<close> for an \<^verbatim>\<open>int n\<close>\<close>

definition cin_int :: "int io" where
  "cin_int s =
     (case cin s of
        [] \<Rightarrow> (Halt AwaitingInput, s)
      | Line l # rest \<Rightarrow> (Halt MalformedInput, s)
      | Num n # rest \<Rightarrow>
          if INT_MIN \<le> n \<and> n \<le> INT_MAX then (Value n, s\<lparr>cin := rest\<rparr>)
          else (Halt MalformedInput, s))"

text \<open>Assignments to the global flag and to the locals of \<^verbatim>\<open>main\<close>, and reading a part of
  the state.\<close>

definition set_printNotices :: "bool \<Rightarrow> unit io" where
  "set_printNotices b s = (Value (), s\<lparr>g_printNotices := b\<rparr>)"

definition set_isAdmin :: "bool \<Rightarrow> unit io" where
  "set_isAdmin b s = (Value (), s\<lparr>isAdmin := b\<rparr>)"

definition set_tableName :: "string \<Rightarrow> unit io" where
  "set_tableName t s = (Value (), s\<lparr>tableName := t\<rparr>)"

definition set_exitFlag :: "bool \<Rightarrow> unit io" where
  "set_exitFlag b s = (Value (), s\<lparr>exitFlag := b\<rparr>)"

definition io_get :: "(state \<Rightarrow> 'a) \<Rightarrow> 'a io" where
  "io_get f s = (Value (f s), s)"

section \<open>libpq calls\<close>

definition PQerrorMessage :: "PGconn \<Rightarrow> string io" where
  "PQerrorMessage conn = io_get (\<lambda>s. errorMessage s conn)"

text \<open>The callback registered on the primary connection; its argument points to \<open>g_printNotices\<close>.\<close>

definition myNoticeProcessor :: "string \<Rightarrow> unit io" where
  "myNoticeProcessor message =
     io_bind (io_get g_printNotices) (\<lambda>printNotices.
       if printNotices then cerr message else io_return ())"

text \<open>libpq's own notice processor writes the message to the standard error stream.\<close>

definition defaultNoticeProcessor :: "string \<Rightarrow> unit io" where
  "defaultNoticeProcessor message = cerr message"

definition notify :: "PGconn \<Rightarrow> string \<Rightarrow> unit io" where
  "notify conn message =
     io_bind (io_get (\<lambda>s. processor s conn)) (\<lambda>p.
       case p of
         MyNoticeProcessor \<Rightarrow> myNoticeProcessor message
       | DefaultProcessor \<Rightarrow> defaultNoticeProcessor message)"

primrec deliver :: "PGconn \<Rightarrow> string list \<Rightarrow> unit io" where
  "deliver conn [] = io_return ()"
| "deliver conn (m # ms) = io_then (notify conn m) (deliver conn ms)"

definition receive :: "PGconn \<Rightarrow> reply \<Rightarrow> PGresult io" where
  "receive conn r =
     io_then (\<lambda>s. (Value (), s\<lparr>errorMessage := (errorMessage s)(conn := reply_message r)\<rparr>))
       (io_then (deliver conn (reply_notices r)) (io_return (reply_result r)))"

text \<open>A command goes to the server; the notices it raises reach the connection's notice
  processor before the call returns its result.\<close>

definition submit :: "PGconn \<Rightarrow> event \<Rightarrow> PGresult io" where
  "submit conn e =
     io_then (emit e)
       (io_bind (io_get (\<lambda>s. respond (backend s) (events s))) (receive conn))"

definition PQexec :: "PGconn \<Rightarrow> string \<Rightarrow> PGresult io" where
  "PQexec conn sql = submit conn (Exec conn sql)"

text \<open>All calls of the source pass no parameter types, lengths or formats: every parameter
  is text, and \<open>nParams\<close> is the length of the array.\<close>

definition PQexecParams :: "PGconn \<Rightarrow> string \<Rightarrow> string list \<Rightarrow> PGresult io" where
  "PQexecParams conn sql paramValues = submit conn (ExecParams conn sql paramValues)"

definition opened :: "PGconn \<Rightarrow> ConnStatusType io" where
  "opened conn s =
     (case accept (backend s) (events s) of
        (st, msg) \<Rightarrow>
          (Value st, s\<lparr>errorMessage := (errorMessage s)(conn := msg),
                        processor := (processor s)(conn := DefaultProcessor)\<rparr>))"

text \<open>\<^verbatim>\<open>PQconnectdb\<close> and \<^verbatim>\<open>PQsetdbLogin\<close> return the new connection; the model
  returns its \<^verbatim>\<open>PQstatus\<close>. A new connection has libpq's own notice processor; notices
  raised while a connection is being established are not part of the model.\<close>

definition PQconnectdb :: "string \<Rightarrow> ConnStatusType io" where
  "PQconnectdb conninfo = io_then (emit (ConnectDb conninfo)) (opened conn')"

definition PQsetdbLogin :: "string \<Rightarrow> string \<Rightarrow> string \<Rightarrow> string \<Rightarrow> string \<Rightarrow> ConnStatusType io" where
  "PQsetdbLogin pghost pgport dbName login pwd =
     io_then (emit (SetDbLogin pghost pgport dbName login pwd)) (opened connTemp)"

definition PQfinish :: "PGconn \<Rightarrow> unit io" where
  "PQfinish conn = emit (Finish conn)"

definition PQsetNoticeProcessor :: "PGconn \<Rightarrow> processor \<Rightarrow> unit io" where
  "PQsetNoticeProcessor conn p =
     io_then (emit (SetNoticeProcessor conn))
       (\<lambda>s. (Value (), s\<lparr>processor := (processor s)(conn := p)\<rparr>))"

definition PQntuples :: "PGresult \<Rightarrow> nat" where
  "PQntuples res = length (tuples res)"

text \<open>The source reads rows below \<open>PQntuples\<close> and columns 0 to 4 only.\<close>

definition PQgetvalue :: "PGresult \<Rightarrow> nat \<Rightarrow> nat \<Rightarrow> string" where
  "PQgetvalue res i j =
     (let t = tuples res ! i
      in if j = 0 then col0 t else if j = 1 then col1 t else if j = 2 then col2 t
         else if j = 3 then col3 t else if j = 4 then col4 t else [])"

definition checkResult :: "PGresult \<Rightarrow> PGconn \<Rightarrow> string \<Rightarrow> unit io" where
  "checkResult res conn errMsg =
     (if resultStatus res \<noteq> PGRES_COMMAND_OK \<and> resultStatus res \<noteq> PGRES_TUPLES_OK
      then io_bind (PQerrorMessage conn) (\<lambda>error. io_throw (runtime_error (errMsg @ '': '' @ error)))
      else io_return ())"

section \<open>DBManager\<close>

definition proceduresSQL :: string where
  \<open>proceduresSQL =
     endl @
     ''            CREATE EXTENSION IF NOT EXISTS dblink;'' @ endl @
     endl @
     ''            CREATE OR REPLACE PROCEDURE sp_create_database(p_dbname VARCHAR)'' @ endl @
     ''            LANGUAGE plpgsql AS $$'' @ endl @
     ''            BEGIN'' @ endl @
     ''                PERFORM dblink_exec('' @ endl @
     ''                    '' @ [CHR 0x27] @ ''host=localhost dbname=postgres user='' @ [CHR 0x27] @ '' || current_user,'' @ endl @
     ''                    '' @ [CHR 0x27] @ ''CREATE DATABASE '' @ [CHR 0x27] @ '' || quote_ident(p_dbname)'' @ endl @
     ''                );'' @ endl @
     ''                RAISE NOTICE '' @ [CHR 0x27] @ ''Database "%" created.'' @ [CHR 0x27] @ '', p_dbname;'' @ endl @
     ''            END;'' @ endl @
     ''            $$;'' @ endl @
     endl @
     ''            CREATE OR REPLACE PROCEDURE sp_drop_database(p_dbname VARCHAR)'' @ endl @
     ''            LANGUAGE plpgsql AS $$'' @ endl @
     ''            BEGIN'' @ endl @
     ''                PERFORM dblink_exec('' @ endl @
     ''                    '' @ [CHR 0x27] @ ''host=localhost dbname=postgres user='' @ [CHR 0x27] @ '' || current_user,'' @ endl @
     ''                    '' @ [CHR 0x27] @ ''DO $inner$'' @ endl @
     ''                     BEGIN'' @ endl @
     ''                       PERFORM pg_terminate_backend(pid)'' @ endl @
     ''                       FROM pg_stat_activity'' @ endl @
     ''                       WHERE datname = '' @ [CHR 0x27] @ '' || quote_literal(p_dbname) || '' @ [CHR 0x27] @ '' AND pid <> pg_backend_pid();'' @ endl @
     ''                     END $inner$;'' @ [CHR 0x27] @ endl @
     ''                );'' @ endl @
     ''                PERFORM dblink_exec('' @ endl @
     ''                    '' @ [CHR 0x27] @ ''host=localhost dbname=postgres user='' @ [CHR 0x27] @ '' || current_user,'' @ endl @
     ''                    '' @ [CHR 0x27] @ ''DROP DATABASE IF EXISTS '' @ [CHR 0x27] @ '' || quote_ident(p_dbname)'' @ endl @
     ''                );'' @ endl @
     ''                RAISE NOTICE '' @ [CHR 0x27] @ ''Database "%" dropped.'' @ [CHR 0x27] @ '', p_dbname;'' @ endl @
     ''            END;'' @ endl @
     ''            $$;'' @ endl @
     endl @
     ''            CREATE OR REPLACE PROCEDURE sp_create_table(p_tablename VARCHAR)'' @ endl @
     ''            LANGUAGE plpgsql AS $$'' @ endl @
     ''            BEGIN'' @ endl @
     ''                IF EXISTS ('' @ endl @
     ''                    SELECT 1'' @ endl @
     ''                    FROM information_schema.tables'' @ endl @
     ''                    WHERE table_schema = '' @ [CHR 0x27] @ ''public'' @ [CHR 0x27] @ endl @
     ''                      AND lower(table_name) = lower(p_tablename)'' @ endl @
     ''                ) THEN'' @ endl @
     ''                     RAISE NOTICE '' @ [CHR 0x27] @ ''Table "%" already exists.'' @ [CHR 0x27] @ '', p_tablename;'' @ endl @
     ''                ELSE'' @ endl @
     ''                     EXECUTE format('' @ [CHR 0x27] @ ''CREATE TABLE %I ('' @ endl @
     ''                         id SERIAL PRIMARY KEY,'' @ endl @
     ''                         title VARCHAR(255),'' @ endl @
     ''                         author VARCHAR(255),'' @ endl @
     ''                         publisher VARCHAR(255),'' @ endl @
     ''                         year INT'' @ endl @
     ''                     )'' @ [CHR 0x27] @ '', p_tablename);'' @ endl @
     ''                     RAISE NOTICE '' @ [CHR 0x27] @ ''Table "%" created.'' @ [CHR 0x27] @ '', p_tablename;'' @ endl @
     ''                END IF;'' @ endl @
     ''            END;'' @ endl @
     ''            $$;'' @ endl @
     endl @
     ''            CREATE OR REPLACE PROCEDURE sp_clear_table(p_tablename VARCHAR)'' @ endl @
     ''            LANGUAGE plpgsql AS $$'' @ endl @
     ''            BEGIN'' @ endl @
     ''                EXECUTE format('' @ [CHR 0x27] @ ''TRUNCATE TABLE %I'' @ [CHR 0x27] @ '', p_tablename);'' @ endl @
     ''                RAISE NOTICE '' @ [CHR 0x27] @ ''Table "%" cleared.'' @ [CHR 0x27] @ '', p_tablename;'' @ endl @
     ''            END;'' @ endl @
     ''            $$;'' @ endl @
     endl @
     ''            CREATE OR REPLACE PROCEDURE sp_add_book('' @ endl @
     ''                p_tablename VARCHAR,'' @ endl @
     ''                p_title VARCHAR,'' @ endl @
     ''                p_author VARCHAR,'' @ endl @
     ''                p_publisher VARCHAR,'' @ endl @
     ''                p_year INT'' @ endl @
     ''            )'' @ endl @
     ''            LANGUAGE plpgsql AS $$'' @ endl @
     ''            BEGIN'' @ endl @
     ''                EXECUTE format('' @ endl @
     ''                  '' @ [CHR 0x27] @ ''INSERT INTO %I (title, author, publisher, year) VALUES (%L, %L, %L, %s)'' @ [CHR 0x27] @ '','' @ endl @
     ''                  p_tablename, p_title, p_author, p_publisher, p_year'' @ endl @
     ''                );'' @ endl @
     ''                RAISE NOTICE '' @ [CHR 0x27] @ ''Book added: %'' @ [CHR 0x27] @ '', p_title;'' @ endl @
     ''            END;'' @ endl @
     ''            $$;'' @ endl @
     endl @
     ''            CREATE OR REPLACE FUNCTION sp_search_book_by_title(p_tablename VARCHAR, p_title VARCHAR)'' @ endl @
     ''            RETURNS TABLE('' @ endl @
     ''                id INT,'' @ endl @
     ''                title VARCHAR,'' @ endl @
     ''                author VARCHAR,'' @ endl @
     ''                publisher VARCHAR,'' @ endl @
     ''                year INT'' @ endl @
     ''            )'' @ endl @
     ''            LANGUAGE plpgsql SECURITY DEFINER AS $$'' @ endl @
     ''            BEGIN'' @ endl @
     ''                IF NOT EXISTS ('' @ endl @
     ''                    SELECT 1 FROM information_schema.tables'' @ endl @
     ''                    WHERE table_schema = '' @ [CHR 0x27] @ ''public'' @ [CHR 0x27] @ endl @
     ''                      AND lower(table_name) = lower(p_tablename)'' @ endl @
     ''                ) THEN'' @ endl @
     ''                    RETURN;'' @ endl @
     ''                ELSE'' @ endl @
     ''                    RETURN QUERY EXECUTE format('' @ endl @
     ''                        '' @ [CHR 0x27] @ ''SELECT id, title, author, publisher, year FROM %I WHERE title ILIKE %L'' @ [CHR 0x27] @ '','' @ endl @
     ''                        p_tablename, '' @ [CHR 0x27] @ ''%'' @ [CHR 0x27] @ '' || p_title || '' @ [CHR 0x27] @ ''%'' @ [CHR 0x27] @ endl @
     ''                    );'' @ endl @
     ''                END IF;'' @ endl @
     ''            END;'' @ endl @
     ''            $$;'' @ endl @
     endl @
     ''            CREATE OR REPLACE PROCEDURE sp_update_book('' @ endl @
     ''                p_tablename VARCHAR,'' @ endl @
     ''                p_id INT,'' @ endl @
     ''                p_title VARCHAR,'' @ endl @
     ''                p_author VARCHAR,'' @ endl @
     ''                p_publisher VARCHAR,'' @ endl @
     ''                p_year INT'' @ endl @
     ''            )'' @ endl @
     ''            LANGUAGE plpgsql AS $$'' @ endl @
     ''            BEGIN'' @ endl @
     ''                EXECUTE format('' @ endl @
     ''                  '' @ [CHR 0x27] @ ''UPDATE %I SET title=%L, author=%L, publisher=%L, year=%s WHERE id=%s'' @ [CHR 0x27] @ '','' @ endl @
     ''                  p_tablename, p_title, p_author, p_publisher, p_year, p_id'' @ endl @
     ''                );'' @ endl @
     ''                RAISE NOTICE '' @ [CHR 0x27] @ ''Book updated with id: %'' @ [CHR 0x27] @ '', p_id;'' @ endl @
     ''            END;'' @ endl @
     ''            $$;'' @ endl @
     endl @
     ''            CREATE OR REPLACE PROCEDURE sp_delete_book_by_title(p_tablename VARCHAR, p_title VARCHAR)'' @ endl @
     ''            LANGUAGE plpgsql AS $$'' @ endl @
     ''            BEGIN'' @ endl @
     ''                EXECUTE format('' @ endl @
     ''                  '' @ [CHR 0x27] @ ''DELETE FROM %I WHERE title=%L'' @ [CHR 0x27] @ '','' @ endl @
     ''                  p_tablename, p_title'' @ endl @
     ''                );'' @ endl @
     ''                RAISE NOTICE '' @ [CHR 0x27] @ ''Book(s) with title "%" deleted.'' @ [CHR 0x27] @ '', p_title;'' @ endl @
     ''            END;'' @ endl @
     ''            $$;'' @ endl @
     endl @
     ''            -- New procedure to create a DB user with a given access mode.'' @ endl @
     ''            CREATE OR REPLACE PROCEDURE sp_create_db_user(p_username VARCHAR, p_password VARCHAR, p_mode VARCHAR)'' @ endl @
     ''            LANGUAGE plpgsql AS $$'' @ endl @
     ''            BEGIN'' @ endl @
     ''                EXECUTE format('' @ [CHR 0x27] @ ''CREATE USER %I WITH PASSWORD %L'' @ [CHR 0x27] @ '', p_username, p_password);'' @ endl @
     ''                IF lower(p_mode) = '' @ [CHR 0x27] @ ''admin'' @ [CHR 0x27] @ '' THEN'' @ endl @
     ''                    EXECUTE format('' @ [CHR 0x27] @ ''ALTER USER %I WITH SUPERUSER'' @ [CHR 0x27] @ '', p_username);'' @ endl @
     ''                ELSE'' @ endl @
     ''                    EXECUTE format('' @ [CHR 0x27] @ ''ALTER USER %I WITH NOSUPERUSER'' @ [CHR 0x27] @ '', p_username);'' @ endl @
     ''                END IF;'' @ endl @
     ''                RAISE NOTICE '' @ [CHR 0x27] @ ''User "%" created with mode %.'' @ [CHR 0x27] @ '', p_username, p_mode;'' @ endl @
     ''            END;'' @ endl @
     ''            $$;'' @ endl @
     ''        ''\<close>

definition connect :: "unit io" where
  "connect =
     io_bind (io_get dbName') (\<lambda>dbName. io_bind (io_get user') (\<lambda>user. io_bind (io_get password') (\<lambda>password.
       io_bind (PQconnectdb (''host=localhost port=5432 dbname='' @ dbName @ '' user='' @ user
                               @ '' password='' @ password)) (\<lambda>status.
         if status \<noteq> CONNECTION_OK
         then io_bind (PQerrorMessage conn') (\<lambda>error.
                io_then (PQfinish conn') (io_throw (runtime_error (''Error connecting to DB: '' @ error))))
         else io_then (PQsetNoticeProcessor conn' MyNoticeProcessor)
                (io_bind (PQexec conn' ''SET client_min_messages TO warning;'') (\<lambda>res. io_return ()))))))"

text \<open>The constructor: the members are initialised, then \<open>connect\<close> runs.\<close>

definition DBManager :: "string \<Rightarrow> string \<Rightarrow> string \<Rightarrow> unit io" where
  "DBManager dbName user password =
     io_then (\<lambda>s. (Value (), s\<lparr>dbName' := dbName, user' := user, password' := password\<rparr>)) connect"

text \<open>The destructor runs when the block that declares the manager is left, by its end or by
  an exception; a run that does not end has not left it.\<close>

definition with_DBManager :: "'a io \<Rightarrow> 'a io" where
  "with_DBManager body s =
     (case body s of
        (Halt h, s1) \<Rightarrow> (Halt h, s1)
      | (Value a, s1) \<Rightarrow> (Value a, snd (PQfinish conn' s1))
      | (Raise e, s1) \<Rightarrow> (Raise e, snd (PQfinish conn' s1)))"

definition initProcedures :: "unit io" where
  "initProcedures =
     io_bind (PQexec conn' proceduresSQL) (\<lambda>res.
       checkResult res conn' ''Error initializing stored procedures'')"

definition createDatabase :: "string \<Rightarrow> unit io" where
  "createDatabase newDbName =
     io_bind (io_get user') (\<lambda>user. io_bind (io_get password') (\<lambda>password.
       io_bind (PQsetdbLogin ''localhost'' ''5432'' ''postgres'' user password) (\<lambda>status.
         if status \<noteq> CONNECTION_OK
         then io_bind (PQerrorMessage connTemp) (\<lambda>error.
                io_then (PQfinish connTemp)
                  (io_throw (runtime_error (''Error connecting to postgres: '' @ error))))
         else io_bind (PQexecParams connTemp ''CALL sp_create_database($1)'' [newDbName]) (\<lambda>res.
                io_then (checkResult res connTemp ''Error creating database'')
                  (PQfinish connTemp)))))"

definition dropDatabase :: "string \<Rightarrow> unit io" where
  "dropDatabase dbNameToDrop =
     io_bind (io_get user') (\<lambda>user. io_bind (io_get password') (\<lambda>password.
       io_bind (PQsetdbLogin ''localhost'' ''5432'' ''postgres'' user password) (\<lambda>status.
         if status \<noteq> CONNECTION_OK
         then io_bind (PQerrorMessage connTemp) (\<lambda>error.
                io_then (PQfinish connTemp)
                  (io_throw (runtime_error (''Error connecting to postgres: '' @ error))))
         else io_bind (PQexecParams connTemp ''CALL sp_drop_database($1)'' [dbNameToDrop]) (\<lambda>res.
                io_then (checkResult res connTemp ''Error dropping database'')
                  (PQfinish connTemp)))))"

definition createTable :: "string \<Rightarrow> unit io" where
  "createTable tableName' =
     io_bind (PQexecParams conn' ''CALL sp_create_table($1)'' [tableName']) (\<lambda>res.
       checkResult res conn' ''Error creating table'')"

definition clearTable :: "string \<Rightarrow> unit io" where
  "clearTable tableName' =
     io_bind (PQexecParams conn' ''CALL sp_clear_table($1)'' [tableName']) (\<lambda>res.
       checkResult res conn' ''Error clearing table'')"

definition addBook :: "string \<Rightarrow> string \<Rightarrow> string \<Rightarrow> string \<Rightarrow> int \<Rightarrow> unit io" where
  "addBook tableName' title' author' publisher' year' =
     io_bind (PQexecParams conn' ''CALL sp_add_book($1, $2, $3, $4, $5)''
                [tableName', title', author', publisher', to_string year']) (\<lambda>res.
       checkResult res conn' ''Error adding book'')"

text \<open>The decoding loop of \<open>searchBookByTitle\<close>: row \<open>i\<close> is appended to \<open>books\<close>; an
  exception of \<open>stoi\<close> leaves the loop.\<close>

function decode_rows :: "PGresult \<Rightarrow> nat \<Rightarrow> nat \<Rightarrow> Book list \<Rightarrow> exn + Book list" where
  "decode_rows res i nRows books =
     (if i < nRows
      then (case stoi (PQgetvalue res i 0) of
              Inl e \<Rightarrow> Inl e
            | Inr b_id \<Rightarrow>
                (case stoi (PQgetvalue res i 4) of
                   Inl e \<Rightarrow> Inl e
                 | Inr b_year \<Rightarrow>
                     decode_rows res (i + 1) nRows
                       (books @ [\<lparr>id' = b_id, title = PQgetvalue res i 1,
                                  author = PQgetvalue res i 2, publisher = PQgetvalue res i 3,
                                  year = b_year\<rparr>])))
      else Inr books)"
  by pat_completeness auto
termination
  by (relation "measure (\<lambda>(res, i, nRows, books). nRows - i)") auto

declare decode_rows.simps [simp del]

definition searchBookByTitle :: "string \<Rightarrow> string \<Rightarrow> Book list io" where
  "searchBookByTitle tableName' titleFilter =
     io_bind (PQexecParams conn' ''SELECT * FROM sp_search_book_by_title($1, $2)''
                [tableName', titleFilter]) (\<lambda>res.
       if resultStatus res \<noteq> PGRES_TUPLES_OK
       then io_throw (runtime_error ''Error searching for book'')
       else (case decode_rows res 0 (PQntuples res) [] of
               Inl e \<Rightarrow> io_throw e
             | Inr books \<Rightarrow> io_return books))"

definition updateBook :: "string \<Rightarrow> int \<Rightarrow> string \<Rightarrow> string \<Rightarrow> string \<Rightarrow> int \<Rightarrow> unit io" where
  "updateBook tableName' b_id title' author' publisher' year' =
     io_bind (PQexecParams conn' ''CALL sp_update_book($1, $2, $3, $4, $5, $6)''
                [tableName', to_string b_id, title', author', publisher', to_string year']) (\<lambda>res.
       checkResult res conn' ''Error updating book'')"

definition deleteBookByTitle :: "string \<Rightarrow> string \<Rightarrow> unit io" where
  "deleteBookByTitle tableName' title' =
     io_bind (PQexecParams conn' ''CALL sp_delete_book_by_title($1, $2)'' [tableName', title']) (\<lambda>res.
       checkResult res conn' ''Error deleting book'')"

definition createDBUser :: "string \<Rightarrow> string \<Rightarrow> string \<Rightarrow> unit io" where
  "createDBUser newUsername newPassword mode =
     io_bind (PQexecParams conn' ''CALL sp_create_db_user($1, $2, $3)''
                [newUsername, newPassword, mode]) (\<lambda>res.
       checkResult res conn' ''Error creating DB user'')"


section \<open>The menu\<close>

text \<open>Every output statement of the source is one event; \<^verbatim>\<open>endl\<close> is the line's end.\<close>

definition book_line :: "Book \<Rightarrow> string" where
  "book_line b =
     to_string (id' b) @ '': '' @ title b @ '' by '' @ author b
     @ '' ('' @ publisher b @ '', '' @ to_string (year b) @ '')'' @ endl"

primrec print_each :: "Book list \<Rightarrow> unit io" where
  "print_each [] = io_return ()"
| "print_each (b # bs) = io_then (cout (book_line b)) (print_each bs)"

definition printBooks :: "Book list \<Rightarrow> unit io" where
  "printBooks books =
     (if books = [] then cout (''No books found.'' @ endl) else print_each books)"

definition print_menu :: "bool \<Rightarrow> unit io" where
  "print_menu isAdmin' =
     io_then (cout endl)
    (io_then (cout (''Available operations:'' @ endl))
    (io_then (if isAdmin'
              then io_then (cout (''1. Create database'' @ endl))
                  (io_then (cout (''2. Drop database'' @ endl))
                  (io_then (cout (''3. Create table'' @ endl))
                  (io_then (cout (''4. Clear table'' @ endl))
                  (io_then (cout (''5. Add book'' @ endl))
                  (io_then (cout (''6. Update book'' @ endl))
                           (cout (''7. Delete book by Title'' @ endl)))))))
              else io_return ())
    (io_then (cout (''8. Search book by Title'' @ endl))
    (io_then (cout (''9. View all records'' @ endl))
    (io_then (if isAdmin'
              then io_then (cout (''10. Create new DB user'' @ endl))
                           (cout (''11. Exit'' @ endl))
              else cout (''10. Exit'' @ endl))
             (cout ''Choose an operation: ''))))))"

text \<open>The chain of branches inside the inner \<^verbatim>\<open>try\<close> of \<^verbatim>\<open>main\<close>, with the locals it reads.\<close>

definition dispatch :: "int \<Rightarrow> bool \<Rightarrow> string \<Rightarrow> unit io" where
  "dispatch choice isAdmin' tableName' =
     (if choice = 1 \<and> isAdmin' then
        io_then (cout ''Enter the name of the database to create: '')
          (io_bind getline (\<lambda>newDb.
             io_then (createDatabase newDb) (cout (''Database created.'' @ endl))))
      else if choice = 2 \<and> isAdmin' then
        io_then (cout ''Enter the name of the database to drop: '')
          (io_bind getline (\<lambda>dropDb.
             io_then (dropDatabase dropDb) (cout (''Database dropped.'' @ endl))))
      else if choice = 3 \<and> isAdmin' then
        io_then (createTable tableName') (cout (''Table created.'' @ endl))
      else if choice = 4 \<and> isAdmin' then
        io_then (clearTable tableName') (cout (''Table cleared.'' @ endl))
      else if choice = 5 \<and> isAdmin' then
        io_then (cout ''Enter Title: '') (io_bind getline (\<lambda>title.
        io_then (cout ''Enter Author: '') (io_bind getline (\<lambda>author.
        io_then (cout ''Enter Publisher: '') (io_bind getline (\<lambda>publisher.
        io_then (cout ''Enter Year: '') (io_bind cin_int (\<lambda>year.
        io_then (addBook tableName' title author publisher year)
          (cout (''Book added.'' @ endl))))))))))
      else if choice = 6 \<and> isAdmin' then
        io_then (cout ''Enter the ID of the book to update: '') (io_bind cin_int (\<lambda>b_id.
        io_then (cout ''Enter new Title: '') (io_bind getline (\<lambda>title.
        io_then (cout ''Enter new Author: '') (io_bind getline (\<lambda>author.
        io_then (cout ''Enter new Publisher: '') (io_bind getline (\<lambda>publisher.
        io_then (cout ''Enter new Year: '') (io_bind cin_int (\<lambda>year.
        io_then (updateBook tableName' b_id title author publisher year)
          (cout (''Book updated.'' @ endl))))))))))))
      else if choice = 7 \<and> isAdmin' then
        io_then (cout ''Enter the Title of the book to delete: '') (io_bind getline (\<lambda>title.
        io_then (deleteBookByTitle tableName' title) (cout (''Book deleted.'' @ endl))))
      else if choice = 8 then
        io_then (cout ''Enter part of the Title to search: '') (io_bind getline (\<lambda>title.
        io_bind (searchBookByTitle tableName' title) printBooks))
      else if choice = 9 then
        io_bind (searchBookByTitle tableName' []) printBooks
      else if choice = 10 \<and> isAdmin' then
        io_then (cout ''Enter new DB username: '') (io_bind getline (\<lambda>newUsername.
        io_then (cout ''Enter new DB user password: '') (io_bind getline (\<lambda>newUserPassword.
        io_then (cout ''Enter access mode for new user (admin/guest): '') (io_bind getline (\<lambda>newUserMode.
        io_then (createDBUser newUsername newUserPassword newUserMode)
          (cout (''New DB user created.'' @ endl))))))))
      else if (choice = 10 \<and> \<not> isAdmin') \<or> (choice = 11 \<and> isAdmin') then
        set_exitFlag True
      else
        cout (''Invalid choice or operation not available for the current role.'' @ endl))"

text \<open>The inner \<^verbatim>\<open>try\<close> statement: the flag is raised, the choice is dispatched and the flag
  is lowered; an exception of the action is printed and the flag is lowered as well.\<close>

definition attempt :: "int \<Rightarrow> bool \<Rightarrow> string \<Rightarrow> unit io" where
  "attempt choice isAdmin' tableName' =
     try_catch
       (io_then (set_printNotices True)
       (io_then (dispatch choice isAdmin' tableName')
                (set_printNotices False)))
       (\<lambda>ex. io_then (cerr (''Error: '' @ what ex @ endl))
                       (set_printNotices False))"

text \<open>One pass through the body of the \<^verbatim>\<open>while\<close> loop.\<close>

definition iteration :: "unit io" where
  "iteration =
     io_then (set_printNotices False)
    (io_bind (io_get isAdmin) (\<lambda>isAdmin'.
     io_bind (io_get tableName) (\<lambda>tableName'.
     io_then (print_menu isAdmin')
    (io_bind cin_int (\<lambda>choice. attempt choice isAdmin' tableName')))))"

function menuLoop :: "state \<Rightarrow> unit outcome \<times> state" where
  "menuLoop s =
     (if exitFlag s then (Value (), s)
      else (case iteration s of
              (Value u, s1) \<Rightarrow> menuLoop s1
            | (Raise e, s1) \<Rightarrow> (Raise e, s1)
            | (Halt h, s1) \<Rightarrow> (Halt h, s1)))"
  by pat_completeness auto

text \<open>The body of the outer \<^verbatim>\<open>try\<close> of \<^verbatim>\<open>main\<close>, in two parts: \<open>operate\<close> is what
  follows the provisioning of the procedures.\<close>

definition operate :: "unit io" where
  "operate =
     io_then (cout (''Connection successful.'' @ endl))
    (io_then (cout ''Enter table name for operations: '') (io_bind getline (\<lambda>tableName'.
     io_then (set_tableName tableName')
    (io_then (set_exitFlag False)
             menuLoop))))"

definition session :: "unit io" where
  "session =
     io_then (cout ''Enter database name: '') (io_bind getline (\<lambda>dbName.
     io_then (cout ''Enter username: '') (io_bind getline (\<lambda>username.
     io_then (cout ''Enter password: '') (io_bind getline (\<lambda>password.
     io_then (set_isAdmin (username = ''admin''))
    (io_then (DBManager dbName username password)
    (with_DBManager
      (io_then initProcedures operate)))))))))"

definition main :: "int io" where
  "main =
     io_then (try_catch session (\<lambda>ex. cerr (''Critical error: '' @ what ex @ endl)))
       (io_return 0)"

text \<open>The process at its start: \<open>g_printNotices\<close> is initialised to \<^verbatim>\<open>false\<close>, nothing has
  happened, the operator's answers are still to be read.\<close>

definition initial :: "backend \<Rightarrow> answer list \<Rightarrow> state" where
  "initial srv answers =
     \<lparr>g_printNotices = False, cin = answers, trace = [], backend = srv,
      errorMessage = (\<lambda>c. []), processor = (\<lambda>c. DefaultProcessor),
      dbName' = [], user' = [], password' = [],
      isAdmin = False, tableName = [], exitFlag = False\<rparr>"

section \<open>Vocabulary of the statements proved below\<close>

text \<open>The number of the exit choice, by role.\<close>

definition exit_choice :: "bool \<Rightarrow> int" where
  "exit_choice isAdmin' = (if isAdmin' then 11 else 10)"

text \<open>The texts the menu writes, in order; the last one is the prompt.\<close>

definition menu_lines :: "bool \<Rightarrow> string list" where
  "menu_lines isAdmin' =
     [endl, ''Available operations:'' @ endl]
     @ (if isAdmin'
        then [''1. Create database'' @ endl, ''2. Drop database'' @ endl,
              ''3. Create table'' @ endl, ''4. Clear table'' @ endl, ''5. Add book'' @ endl,
              ''6. Update book'' @ endl, ''7. Delete book by Title'' @ endl]
        else [])
     @ [''8. Search book by Title'' @ endl, ''9. View all records'' @ endl]
     @ (if isAdmin'
        then [''10. Create new DB user'' @ endl, ''11. Exit'' @ endl]
        else [''10. Exit'' @ endl])
     @ [''Choose an operation: '']"

text \<open>The state in which the choice is read: the flag is down and the menu is on the screen.\<close>

definition after_menu :: "state \<Rightarrow> state" where
  "after_menu s =
     s\<lparr>g_printNotices := False,
       trace := trace s @ map (\<lambda>x. (False, Stdout x)) (menu_lines (isAdmin s))\<rparr>"

text \<open>The events of a run from \<open>s\<close> to \<open>s1\<close>.\<close>

definition new_events :: "state \<Rightarrow> state \<Rightarrow> event list" where
  "new_events s s1 = map snd (drop (length (trace s)) (trace s1))"

text \<open>An event that reaches the database server.\<close>

fun remote :: "event \<Rightarrow> bool" where
  "remote (ConnectDb i) = True"
| "remote (SetDbLogin h p d u w) = True"
| "remote (Exec c sql) = True"
| "remote (ExecParams c sql ps) = True"
| "remote e = False"

text \<open>The line written for a choice that is out of range or not open to the role.\<close>

definition invalid_message :: string where
  "invalid_message = ''Invalid choice or operation not available for the current role.'' @ endl"

text \<open>The choices no branch of the menu takes, by role.\<close>

definition rejected :: "int \<Rightarrow> bool \<Rightarrow> bool" where
  "rejected choice isAdmin' =
     (if isAdmin' then choice < 1 \<or> 11 < choice
      else choice \<noteq> 8 \<and> choice \<noteq> 9 \<and> choice \<noteq> 10)"

text \<open>Sample worlds: a server that accepts every connection and completes every command
  without a word, and a process standing at the top of the loop.\<close>

definition quiet :: backend where
  "quiet =
     \<lparr>accept = (\<lambda>h. (CONNECTION_OK, [])),
      respond = (\<lambda>h. \<lparr>reply_result = \<lparr>resultStatus = PGRES_COMMAND_OK, tuples = []\<rparr>,
                       reply_message = [], reply_notices = []\<rparr>)\<rparr>"

definition at_menu :: "backend \<Rightarrow> bool \<Rightarrow> string \<Rightarrow> answer list \<Rightarrow> state" where
  "at_menu srv isAdmin' tableName' answers =
     (initial srv answers)\<lparr>isAdmin := isAdmin', tableName := tableName',
        dbName' := ''library'', user' := (if isAdmin' then ''admin'' else ''guest''),
        password' := ''secret'',
        processor := (\<lambda>c. DefaultProcessor)(conn' := MyNoticeProcessor)\<rparr>"

text \<open>A server that accepts every connection and fails every command with message \<open>msg\<close>,
  and one that refuses every connection with it.\<close>

definition failing :: "string \<Rightarrow> backend" where
  "failing msg =
     \<lparr>accept = (\<lambda>h. (CONNECTION_OK, [])),
      respond = (\<lambda>h. \<lparr>reply_result = \<lparr>resultStatus = PGRES_FATAL_ERROR, tuples = []\<rparr>,
                       reply_message = msg, reply_notices = []\<rparr>)\<rparr>"

definition refusing :: "string \<Rightarrow> backend" where
  "refusing msg =
     \<lparr>accept = (\<lambda>h. (CONNECTION_BAD, msg)),
      respond = (\<lambda>h. \<lparr>reply_result = \<lparr>resultStatus = PGRES_FATAL_ERROR, tuples = []\<rparr>,
                       reply_message = msg, reply_notices = []\<rparr>)\<rparr>"

text \<open>The notices of a command that reach the operator: all of them under libpq's own
  processor, and under the registered callback those raised while the flag is up.\<close>

definition echoed :: "PGconn \<Rightarrow> state \<Rightarrow> string list \<Rightarrow> string list" where
  "echoed conn s ms =
     (if processor s conn = MyNoticeProcessor \<and> \<not> g_printNotices s then [] else ms)"

text \<open>The commands among some events.\<close>

fun command :: "event \<Rightarrow> bool" where
  "command (Exec c sql) = True"
| "command (ExecParams c sql ps) = True"
| "command e = False"

text \<open>The values of a C++ \<^verbatim>\<open>int\<close>, which are those of the server's \<^verbatim>\<open>INT\<close> columns.\<close>

definition in_int :: "int \<Rightarrow> bool" where
  "in_int n = (INT_MIN \<le> n \<and> n \<le> INT_MAX)"

text \<open>A row as the server sends it: the two \<^verbatim>\<open>INT\<close> columns in decimal text.\<close>

definition render :: "Book \<Rightarrow> tuple" where
  "render b =
     \<lparr>col0 = to_string (id' b), col1 = title b, col2 = author b, col3 = publisher b,
      col4 = to_string (year b)\<rparr>"

text \<open>Two books.\<close>

definition sample_books :: "Book list" where
  "sample_books =
     [\<lparr>id' = 1, title = ''Dune'', author = ''Herbert'', publisher = ''Ace'', year = 1965\<rparr>,
      \<lparr>id' = 2, title = ''Emma'', author = ''Austen'', publisher = ''Murray'', year = 1815\<rparr>]"

text \<open>\<open>steps R m\<close>: running \<open>m\<close> from any state leads to a state related to it by \<open>R\<close>,
  however \<open>m\<close> ends.\<close>

definition steps :: "(state \<Rightarrow> state \<Rightarrow> bool) \<Rightarrow> 'a io \<Rightarrow> bool" where
  "steps R m = (\<forall>s. R s (snd (m s)))"

definition table_commands :: "string list" where
  "table_commands =
     [''CALL sp_create_table($1)'', ''CALL sp_clear_table($1)'',
      ''CALL sp_add_book($1, $2, $3, $4, $5)'',
      ''SELECT * FROM sp_search_book_by_title($1, $2)'',
      ''CALL sp_update_book($1, $2, $3, $4, $5, $6)'',
      ''CALL sp_delete_book_by_title($1, $2)'']"

text \<open>The texts of the parametrised commands.\<close>

definition sql_commands :: "string list" where
  "sql_commands =
     [''CALL sp_create_database($1)'', ''CALL sp_drop_database($1)'',
      ''CALL sp_create_db_user($1, $2, $3)''] @ table_commands"

fun fixed_text :: "event \<Rightarrow> bool" where
  "fixed_text (ExecParams c sql ps) = (sql \<in> set sql_commands)"
| "fixed_text e = True"

text \<open>A parametrised command has one of these texts, and one for a table-scoped procedure
  names the table \<open>t\<close> as its first parameter.\<close>

fun on_table :: "string \<Rightarrow> event \<Rightarrow> bool" where
  "on_table t (ExecParams c sql ps) =
     (sql \<in> set sql_commands \<and> (if sql \<in> set table_commands then take 1 ps = [t] else True))"
| "on_table t e = True"

text \<open>\<open>frame t\<close>: the locals of \<open>main\<close>, the flag, the server, the manager's members and
  the notice processor of the primary connection are unchanged, no input is put back, and
  the trace has grown by events that carry the flag and use table \<open>t\<close>.\<close>

definition frame :: "string \<Rightarrow> state \<Rightarrow> state \<Rightarrow> bool" where
  "frame t s s1 =
     (isAdmin s1 = isAdmin s \<and> tableName s1 = tableName s \<and> exitFlag s1 = exitFlag s \<and>
      g_printNotices s1 = g_printNotices s \<and> backend s1 = backend s \<and>
      dbName' s1 = dbName' s \<and> user' s1 = user' s \<and> password' s1 = password' s \<and>
      processor s1 conn' = processor s conn' \<and>
      length (cin s1) \<le> length (cin s) \<and>
      (\<exists>new. trace s1 = trace s @ map (Pair (g_printNotices s)) new \<and> list_all (on_table t) new))"

text \<open>\<open>run_rel t\<close>, for a pass of the loop: as \<open>frame t\<close>, but the flag and the exit flag
  may change.\<close>

definition run_rel :: "string \<Rightarrow> state \<Rightarrow> state \<Rightarrow> bool" where
  "run_rel t s s1 =
     (isAdmin s1 = isAdmin s \<and> tableName s1 = tableName s \<and> backend s1 = backend s \<and>
      dbName' s1 = dbName' s \<and> user' s1 = user' s \<and> password' s1 = password' s \<and>
      processor s1 conn' = processor s conn' \<and>
      length (cin s1) \<le> length (cin s) \<and>
      (\<exists>new. trace s1 = trace s @ new \<and> list_all (\<lambda>x. on_table t (snd x)) new))"

text \<open>\<open>grows t\<close>, for the whole run: the role is unchanged, the table name is unchanged or
  has become \<open>t\<close>, and the trace has grown by events that use table \<open>t\<close>. \<open>setup_rel t\<close>
  adds that no input was read.\<close>

definition grows :: "string \<Rightarrow> state \<Rightarrow> state \<Rightarrow> bool" where
  "grows t s s1 =
     (isAdmin s1 = isAdmin s \<and> (tableName s1 = tableName s \<or> tableName s1 = t) \<and>
      (\<exists>new. trace s1 = trace s @ new \<and> list_all (\<lambda>x. on_table t (snd x)) new))"

definition setup_rel :: "string \<Rightarrow> state \<Rightarrow> state \<Rightarrow> bool" where
  "setup_rel t s s1 = (cin s1 = cin s \<and> grows t s s1)"

text \<open>The answer that \<open>operate\<close> will read as the table name.\<close>

definition table_answer :: "answer list \<Rightarrow> string" where
  "table_answer answers = (case answers of Line t # rest \<Rightarrow> t | _ \<Rightarrow> [])"





text \<open>A server that answers every command with the given rows, and two rows of which the
  second has no year (SQL NULL, which libpq hands out as the empty string).\<close>

definition answering :: "tuple list \<Rightarrow> backend" where
  "answering rows =
     \<lparr>accept = (\<lambda>h. (CONNECTION_OK, [])),
      respond = (\<lambda>h. \<lparr>reply_result = \<lparr>resultStatus = PGRES_TUPLES_OK, tuples = rows\<rparr>,
                       reply_message = [], reply_notices = []\<rparr>)\<rparr>"

definition null_year_rows :: "tuple list" where
  "null_year_rows =
     [\<lparr>col0 = ''1'', col1 = ''Dune'', col2 = ''Herbert'', col3 = ''Ace'', col4 = ''1965''\<rparr>,
      \<lparr>col0 = ''2'', col1 = ''Emma'', col2 = ''Austen'', col3 = ''Murray'', col4 = []\<rparr>]"

section \<open>Framing lemmas\<close>

lemma frame_refl: "frame t s s"
  by (simp add: frame_def exI [of _ "[]"])

lemma frame_trans:
  assumes "frame t s s1" and "frame t s1 s2"
  shows "frame t s s2"
proof -
  from assms(1) obtain n1 where n1: "trace s1 = trace s @ map (Pair (g_printNotices s)) n1"
    "list_all (on_table t) n1" by (auto simp: frame_def)
  from assms(2) obtain n2 where n2: "trace s2 = trace s1 @ map (Pair (g_printNotices s1)) n2"
    "list_all (on_table t) n2" by (auto simp: frame_def)
  have g: "g_printNotices s1 = g_printNotices s" using assms(1) by (simp add: frame_def)
  have "trace s2 = trace s @ map (Pair (g_printNotices s)) (n1 @ n2) \<and> list_all (on_table t) (n1 @ n2)"
    using n1 n2 g by simp
  then have "\<exists>new. trace s2 = trace s @ map (Pair (g_printNotices s)) new \<and> list_all (on_table t) new"
    by blast
  then show ?thesis using assms by (simp add: frame_def)
qed

lemma steps_returnI: "(\<And>s. R s s) \<Longrightarrow> steps R (io_return a)"
  by (simp add: steps_def io_return_def)

lemma steps_throwI: "(\<And>s. R s s) \<Longrightarrow> steps R (io_throw e)"
  by (simp add: steps_def io_throw_def)

lemma steps_getI: "(\<And>s. R s s) \<Longrightarrow> steps R (io_get f)"
  by (simp add: steps_def io_get_def)

lemma steps_bindI:
  assumes trans: "\<And>a b c. R a b \<Longrightarrow> R b c \<Longrightarrow> R a c"
    and "steps R m" and "\<And>a. steps R (f a)"
  shows "steps R (io_bind m f)"
  unfolding steps_def
proof
  fix s
  have m: "R s (snd (m s))" using assms(2) by (simp add: steps_def)
  show "R s (snd (io_bind m f s))"
  proof (cases "m s")
    case (Pair r s1)
    show ?thesis
    proof (cases r)
      case (Value a)
      have "R s1 (snd (f a s1))" using assms(3) by (simp add: steps_def)
      with m Pair Value show ?thesis by (auto simp: io_bind_def intro: trans)
    qed (use m Pair in \<open>auto simp: io_bind_def\<close>)
  qed
qed

lemma steps_thenI:
  assumes "\<And>a b c. R a b \<Longrightarrow> R b c \<Longrightarrow> R a c" and "steps R m" and "steps R k"
  shows "steps R (io_then m k)"
  unfolding io_then_def using assms by (intro steps_bindI) auto

lemma steps_try_catchI:
  assumes trans: "\<And>a b c. R a b \<Longrightarrow> R b c \<Longrightarrow> R a c"
    and "steps R m" and "\<And>e. steps R (h e)"
  shows "steps R (try_catch m h)"
  unfolding steps_def
proof
  fix s
  have m: "R s (snd (m s))" using assms(2) by (simp add: steps_def)
  show "R s (snd (try_catch m h s))"
  proof (cases "m s")
    case (Pair r s1)
    show ?thesis
    proof (cases r)
      case (Raise e)
      have "R s1 (snd (h e s1))" using assms(3) by (simp add: steps_def)
      with m Pair Raise show ?thesis by (auto simp: try_catch_def intro: trans)
    qed (use m Pair in \<open>auto simp: try_catch_def\<close>)
  qed
qed

lemma steps_mono: "(\<And>s s1. R s s1 \<Longrightarrow> R' s s1) \<Longrightarrow> steps R m \<Longrightarrow> steps R' m"
  by (simp add: steps_def)

named_theorems frame_intros

lemma frame_return [frame_intros]: "steps (frame t) (io_return a)"
  by (rule steps_returnI) (rule frame_refl)

lemma frame_throw [frame_intros]: "steps (frame t) (io_throw e)"
  by (rule steps_throwI) (rule frame_refl)

lemma frame_get [frame_intros]: "steps (frame t) (io_get f)"
  by (rule steps_getI) (rule frame_refl)

lemma frame_bind [frame_intros]:
  "steps (frame t) m \<Longrightarrow> (\<And>a. steps (frame t) (f a)) \<Longrightarrow> steps (frame t) (io_bind m f)"
  by (rule steps_bindI [where R = "frame t"]) (auto intro: frame_trans)

lemma frame_then [frame_intros]:
  "steps (frame t) m \<Longrightarrow> steps (frame t) k \<Longrightarrow> steps (frame t) (io_then m k)"
  by (simp add: io_then_def frame_bind)

lemma frame_if [frame_intros]:
  "steps (frame t) m \<Longrightarrow> steps (frame t) k \<Longrightarrow> steps (frame t) (if b then m else k)"
  by simp

lemma frame_emit: "on_table t e \<Longrightarrow> steps (frame t) (emit e)"
  by (simp add: steps_def emit_def frame_def exI [of _ "[e]"])

lemma frame_cout [frame_intros]: "steps (frame t) (cout x)"
  by (simp add: cout_def frame_emit)

lemma frame_cerr [frame_intros]: "steps (frame t) (cerr x)"
  by (simp add: cerr_def frame_emit)

lemma frame_getline [frame_intros]: "steps (frame t) getline"
  by (auto simp: steps_def getline_def frame_def exI [of _ "[]"] split: list.splits answer.splits)

lemma frame_cin_int [frame_intros]: "steps (frame t) cin_int"
  by (auto simp: steps_def cin_int_def frame_def exI [of _ "[]"] split: list.splits answer.splits)

lemma frame_PQerrorMessage [frame_intros]: "steps (frame t) (PQerrorMessage c)"
  by (simp add: PQerrorMessage_def frame_get)

lemma frame_notify: "steps (frame t) (notify c m)"
  unfolding notify_def myNoticeProcessor_def defaultNoticeProcessor_def
  by (intro frame_intros) (auto split: processor.splits intro!: frame_intros)

lemma frame_deliver: "steps (frame t) (deliver c ms)"
  by (induction ms) (auto intro!: frame_intros frame_notify)

lemma frame_receive: "steps (frame t) (receive c r)"
  unfolding receive_def
  by (intro frame_intros frame_deliver) (simp add: steps_def frame_def exI [of _ "[]"])

lemma frame_submit: "on_table t e \<Longrightarrow> steps (frame t) (submit c e)"
  unfolding submit_def by (intro frame_intros frame_receive frame_emit)

lemma frame_PQexec [frame_intros]: "steps (frame t) (PQexec c sql)"
  by (simp add: PQexec_def frame_submit)

lemma frame_PQexecParams:
  "on_table t (ExecParams c sql ps) \<Longrightarrow> steps (frame t) (PQexecParams c sql ps)"
  unfolding PQexecParams_def by (rule frame_submit)

lemma frame_opened: "steps (frame t) (opened connTemp)"
  by (simp add: steps_def opened_def frame_def exI [of _ "[]"] split: prod.splits)

lemma frame_PQsetdbLogin [frame_intros]: "steps (frame t) (PQsetdbLogin a b c d e)"
  unfolding PQsetdbLogin_def by (intro frame_intros frame_opened frame_emit) simp

lemma frame_PQfinish [frame_intros]: "steps (frame t) (PQfinish c)"
  by (simp add: PQfinish_def frame_emit)

lemma frame_checkResult [frame_intros]: "steps (frame t) (checkResult res c m)"
  unfolding checkResult_def by (intro frame_intros)

lemma frame_createDatabase [frame_intros]: "steps (frame t) (createDatabase x)"
  unfolding createDatabase_def
  by (intro frame_intros frame_PQexecParams) (simp add: table_commands_def sql_commands_def)

lemma frame_dropDatabase [frame_intros]: "steps (frame t) (dropDatabase x)"
  unfolding dropDatabase_def
  by (intro frame_intros frame_PQexecParams) (simp add: table_commands_def sql_commands_def)

lemma frame_createTable [frame_intros]: "steps (frame t) (createTable t)"
  unfolding createTable_def
  by (intro frame_intros frame_PQexecParams) (simp add: table_commands_def sql_commands_def)

lemma frame_clearTable [frame_intros]: "steps (frame t) (clearTable t)"
  unfolding clearTable_def
  by (intro frame_intros frame_PQexecParams) (simp add: table_commands_def sql_commands_def)

lemma frame_addBook [frame_intros]: "steps (frame t) (addBook t a b c d)"
  unfolding addBook_def
  by (intro frame_intros frame_PQexecParams) (simp add: table_commands_def sql_commands_def)

lemma frame_updateBook [frame_intros]: "steps (frame t) (updateBook t i a b c d)"
  unfolding updateBook_def
  by (intro frame_intros frame_PQexecParams) (simp add: table_commands_def sql_commands_def)

lemma frame_deleteBookByTitle [frame_intros]: "steps (frame t) (deleteBookByTitle t a)"
  unfolding deleteBookByTitle_def
  by (intro frame_intros frame_PQexecParams) (simp add: table_commands_def sql_commands_def)

lemma frame_createDBUser [frame_intros]: "steps (frame t) (createDBUser a b c)"
  unfolding createDBUser_def
  by (intro frame_intros frame_PQexecParams) (simp add: table_commands_def sql_commands_def)

lemma frame_searchBookByTitle [frame_intros]: "steps (frame t) (searchBookByTitle t a)"
  unfolding searchBookByTitle_def
  by (intro frame_intros frame_PQexecParams)
     (auto simp: table_commands_def sql_commands_def split: sum.splits intro!: frame_intros)

lemma frame_print_each: "steps (frame t) (print_each bs)"
  by (induction bs) (auto intro!: frame_intros)

lemma frame_printBooks [frame_intros]: "steps (frame t) (printBooks bs)"
  unfolding printBooks_def by (intro frame_intros frame_print_each)


lemma dispatch_exit: "dispatch (exit_choice adm) adm t = set_exitFlag True"
  by (auto simp: exit_choice_def dispatch_def)

lemma frame_dispatch:
  "choice \<noteq> exit_choice adm \<Longrightarrow> steps (frame t) (dispatch choice adm t)"
  by (auto simp: dispatch_def exit_choice_def intro!: frame_intros)

lemma print_menu_eq:
  "print_menu adm s =
     (Value (), s\<lparr>trace := trace s @ map (\<lambda>x. (g_printNotices s, Stdout x)) (menu_lines adm)\<rparr>)"
  by (simp add: print_menu_def menu_lines_def cout_def emit_def io_then_def io_bind_def
      io_return_def)

lemma iteration_eq:
  "iteration s =
     (case cin s of
        [] \<Rightarrow> (Halt AwaitingInput, after_menu s)
      | Line l # rest \<Rightarrow> (Halt MalformedInput, after_menu s)
      | Num n # rest \<Rightarrow>
          if INT_MIN \<le> n \<and> n \<le> INT_MAX
          then attempt n (isAdmin s) (tableName s) ((after_menu s)\<lparr>cin := rest\<rparr>)
          else (Halt MalformedInput, after_menu s))"
  by (simp add: iteration_def io_then_def io_bind_def io_get_def set_printNotices_def
      print_menu_eq cin_int_def after_menu_def split: list.splits answer.splits)

lemma attempt_eq:
  "attempt c adm t s =
     (case dispatch c adm t (s\<lparr>g_printNotices := True\<rparr>) of
        (Value u, s1) \<Rightarrow> (Value (), s1\<lparr>g_printNotices := False\<rparr>)
      | (Raise e, s1) \<Rightarrow>
          (Value (), s1\<lparr>trace := trace s1 @ [(g_printNotices s1, Stderr (''Error: '' @ what e @ endl))],
                         g_printNotices := False\<rparr>)
      | (Halt h, s1) \<Rightarrow> (Halt h, s1))"
  by (simp add: attempt_def try_catch_def io_then_def io_bind_def set_printNotices_def
      cerr_def emit_def split: prod.splits outcome.splits)

section \<open>A pass of the loop, and the loop\<close>

lemma run_rel_refl: "run_rel t s s"
  by (simp add: run_rel_def)

lemma run_rel_trans:
  assumes "run_rel t s s1" and "run_rel t s1 s2"
  shows "run_rel t s s2"
proof -
  from assms(1) obtain n1 where n1: "trace s1 = trace s @ n1"
    "list_all (\<lambda>x. on_table t (snd x)) n1" by (auto simp: run_rel_def)
  from assms(2) obtain n2 where n2: "trace s2 = trace s1 @ n2"
    "list_all (\<lambda>x. on_table t (snd x)) n2" by (auto simp: run_rel_def)
  have "trace s2 = trace s @ (n1 @ n2) \<and> list_all (\<lambda>x. on_table t (snd x)) (n1 @ n2)"
    using n1 n2 by simp
  then have "\<exists>new. trace s2 = trace s @ new \<and> list_all (\<lambda>x. on_table t (snd x)) new"
    by blast
  then show ?thesis using assms by (simp add: run_rel_def)
qed

lemma frame_run_rel: "frame t s s1 \<Longrightarrow> run_rel t s s1"
  by (auto simp: frame_def run_rel_def list_all_iff)

lemma run_rel_flag: "run_rel t s s1 \<Longrightarrow> run_rel t (s\<lparr>g_printNotices := a\<rparr>) (s1\<lparr>g_printNotices := b\<rparr>)"
  by (simp add: run_rel_def)

lemma run_rel_exitFlag: "run_rel t s (s\<lparr>exitFlag := b\<rparr>)"
  by (simp add: run_rel_def)

lemma run_rel_emit: "run_rel t s s1 \<Longrightarrow> on_table t e \<Longrightarrow> run_rel t s (s1\<lparr>trace := trace s1 @ [(b, e)]\<rparr>)"
  by (auto simp: run_rel_def)

lemma run_dispatch: "run_rel t s (snd (dispatch c adm t s))"
proof (cases "c = exit_choice adm")
  case True
  then show ?thesis by (simp add: dispatch_exit set_exitFlag_def run_rel_exitFlag)
next
  case False
  then have "frame t s (snd (dispatch c adm t s))"
    using frame_dispatch [of c adm t] by (simp add: steps_def)
  then show ?thesis by (rule frame_run_rel)
qed

lemma run_attempt: "run_rel t s (snd (attempt c adm t s))"
proof -
  obtain r s1 where d: "dispatch c adm t (s\<lparr>g_printNotices := True\<rparr>) = (r, s1)"
    by (cases "dispatch c adm t (s\<lparr>g_printNotices := True\<rparr>)")
  have "run_rel t (s\<lparr>g_printNotices := True\<rparr>) s1"
    using run_dispatch [of t "s\<lparr>g_printNotices := True\<rparr>" c adm] d by simp
  then have a: "run_rel t s (s1\<lparr>g_printNotices := g_printNotices s1\<rparr>)"
    using run_rel_flag [of t "s\<lparr>g_printNotices := True\<rparr>" s1 "g_printNotices s" "g_printNotices s1"]
    by simp
  then have b: "run_rel t s s1" by simp
  show ?thesis
  proof (cases r)
    case (Value u)
    then show ?thesis using d run_rel_flag [OF b, of "g_printNotices s" False]
      by (simp add: attempt_eq)
  next
    case (Raise e)
    have "run_rel t s (s1\<lparr>trace := trace s1 @ [(g_printNotices s1, Stderr (''Error: '' @ what e @ endl))]\<rparr>)"
      by (rule run_rel_emit [OF b]) simp
    from run_rel_flag [OF this, of "g_printNotices s" False]
    show ?thesis using d Raise by (simp add: attempt_eq)
  next
    case (Halt h)
    then show ?thesis using d b by (simp add: attempt_eq)
  qed
qed

lemma run_after_menu: "run_rel t s (after_menu s)"
  by (simp add: run_rel_def after_menu_def list_all_iff)

lemma run_rel_cin: "run_rel t s s1 \<Longrightarrow> run_rel t s (s1\<lparr>cin := tl (cin s1)\<rparr>)"
  by (auto simp: run_rel_def)

lemma run_iteration: "run_rel (tableName s) s (snd (iteration s))"
proof (cases "cin s")
  case Nil
  then show ?thesis by (simp add: iteration_eq run_after_menu)
next
  case (Cons a rest)
  show ?thesis
  proof (cases a)
    case (Line l)
    then show ?thesis using Cons by (simp add: iteration_eq run_after_menu)
  next
    case (Num n)
    have "cin (after_menu s) = Num n # rest" using Cons Num by (simp add: after_menu_def)
    then have "run_rel (tableName s) s ((after_menu s)\<lparr>cin := rest\<rparr>)"
      using run_rel_cin [OF run_after_menu, of "tableName s" s] by simp
    then have "run_rel (tableName s) s
        (snd (attempt n (isAdmin s) (tableName s) ((after_menu s)\<lparr>cin := rest\<rparr>)))"
      using run_attempt by (rule run_rel_trans)
    then show ?thesis using Cons Num by (simp add: iteration_eq run_after_menu)
  qed
qed

lemma iteration_consumes:
  assumes "iteration s = (Value u, s1)"
  shows "length (cin s1) < length (cin s)"
proof (cases "cin s")
  case Nil
  then show ?thesis using assms by (simp add: iteration_eq)
next
  case (Cons a rest)
  show ?thesis
  proof (cases a)
    case (Line l)
    then show ?thesis using Cons assms by (simp add: iteration_eq)
  next
    case (Num n)
    let ?sm = "(after_menu s)\<lparr>cin := rest\<rparr>"
    have "attempt n (isAdmin s) (tableName s) ?sm = (Value u, s1)"
      using Cons Num assms by (simp add: iteration_eq split: if_splits)
    then have "run_rel (tableName s) ?sm s1"
      using run_attempt [of "tableName s" ?sm n "isAdmin s"] by simp
    then have "length (cin s1) \<le> length rest" by (simp add: run_rel_def)
    then show ?thesis using Cons by simp
  qed
qed

termination menuLoop
  by (relation "measure (\<lambda>s. length (cin s))") (auto dest: iteration_consumes [OF sym])

declare menuLoop.simps [simp del]

lemma run_menuLoop: "run_rel (tableName s) s (snd (menuLoop s))"
proof (induction s rule: menuLoop.induct)
  case (1 s)
  show ?case
  proof (cases "exitFlag s")
    case True
    then show ?thesis by (simp add: menuLoop.simps [of s] run_rel_refl)
  next
    case False
    obtain r s1 where it: "iteration s = (r, s1)" by (cases "iteration s")
    have step: "run_rel (tableName s) s s1" using run_iteration [of s] it by simp
    show ?thesis
    proof (cases r)
      case (Value u)
      have "run_rel (tableName s1) s1 (snd (menuLoop s1))"
        using "1.IH" [OF False it [symmetric] Value] .
      moreover have "tableName s1 = tableName s" using step by (simp add: run_rel_def)
      ultimately have "run_rel (tableName s) s (snd (menuLoop s1))"
        using step by (auto intro: run_rel_trans)
      then show ?thesis using False it Value by (simp add: menuLoop.simps [of s])
    qed (use False it step in \<open>simp_all add: menuLoop.simps [of s]\<close>)
  qed
qed

section \<open>Choices\<close>

lemma dispatch_rejected: "rejected c adm \<Longrightarrow> dispatch c adm t = cout invalid_message"
  by (auto simp: dispatch_def rejected_def invalid_message_def split: if_splits)

lemma iteration_rejected:
  assumes "cin s = Num c # rest" and "INT_MIN \<le> c \<and> c \<le> INT_MAX" and "rejected c (isAdmin s)"
  shows "iteration s =
    (Value (), (after_menu s)\<lparr>cin := rest,
       trace := trace (after_menu s) @ [(True, Stdout invalid_message)]\<rparr>)"
  using assms
  by (simp add: iteration_eq attempt_eq dispatch_rejected cout_def emit_def after_menu_def)

lemma iteration_exit:
  assumes "cin s = Num c # rest" and "INT_MIN \<le> c \<and> c \<le> INT_MAX" and "c = exit_choice (isAdmin s)"
  shows "iteration s = (Value (), (after_menu s)\<lparr>cin := rest, exitFlag := True\<rparr>)"
  using assms
  by (simp add: iteration_eq attempt_eq dispatch_exit set_exitFlag_def after_menu_def)




lemma new_events_after_menu:
  "new_events s ((after_menu s)\<lparr>cin := rest, exitFlag := b\<rparr>) = map Stdout (menu_lines (isAdmin s))"
  by (simp add: new_events_def after_menu_def comp_def)

lemma remote_menu: "\<not> list_ex remote (map Stdout xs)"
  by (induction xs) auto

lemma new_events_rejected:
  "new_events s ((after_menu s)\<lparr>cin := rest, trace := trace (after_menu s) @ [(b, e)]\<rparr>)
     = map Stdout (menu_lines (isAdmin s)) @ [e]"
  by (simp add: new_events_def after_menu_def comp_def)

section \<open>What a call does to the trace\<close>

lemma deliver_eq:
  "deliver c ms s =
     (Value (), s\<lparr>trace := trace s @ map (\<lambda>m. (g_printNotices s, Stderr m)) (echoed c s ms)\<rparr>)"
proof (induction ms arbitrary: s)
  case Nil
  then show ?case by (simp add: io_return_def echoed_def)
next
  case (Cons m ms)
  show ?case
    by (simp add: Cons.IH io_then_def io_bind_def io_get_def notify_def myNoticeProcessor_def
        defaultNoticeProcessor_def cerr_def emit_def io_return_def echoed_def
        split: processor.splits)
qed

lemma submit_eq:
  "submit c e s =
     (Value (reply_result (respond (backend s) (events s @ [e]))),
      s\<lparr>trace := trace s @ (g_printNotices s, e)
               # map (\<lambda>m. (g_printNotices s, Stderr m))
                   (echoed c s (reply_notices (respond (backend s) (events s @ [e])))),
        errorMessage := (errorMessage s)(c := reply_message (respond (backend s) (events s @ [e])))\<rparr>)"
  by (simp add: submit_def receive_def deliver_eq io_then_def io_bind_def io_get_def emit_def
      io_return_def events_def echoed_def)

lemma opened_eq:
  "opened c s =
     (Value (fst (accept (backend s) (events s))),
      s\<lparr>errorMessage := (errorMessage s)(c := snd (accept (backend s) (events s))),
        processor := (processor s)(c := DefaultProcessor)\<rparr>)"
  by (simp add: opened_def split: prod.splits)

lemmas run_defs =
  io_then_def io_bind_def io_get_def io_return_def io_throw_def cout_def cerr_def emit_def
  PQexec_def PQexecParams_def submit_eq PQsetdbLogin_def PQconnectdb_def opened_eq PQfinish_def
  PQerrorMessage_def checkResult_def PQsetNoticeProcessor_def events_def

lemma command_Stderr: "filter command (map Stderr ms) = []"
  by (induction ms) auto

lemmas sent_defs =
  new_events_def run_defs comp_def command_Stderr echoed_def

lemma sent_createTable:
  "filter command (new_events s (snd (createTable t s)))
     = [ExecParams conn' ''CALL sp_create_table($1)'' [t]]"
  by (simp add: createTable_def sent_defs)

lemma sent_clearTable:
  "filter command (new_events s (snd (clearTable t s)))
     = [ExecParams conn' ''CALL sp_clear_table($1)'' [t]]"
  by (simp add: clearTable_def sent_defs)

lemma sent_addBook:
  "filter command (new_events s (snd (addBook t a b c y s)))
     = [ExecParams conn' ''CALL sp_add_book($1, $2, $3, $4, $5)'' [t, a, b, c, to_string y]]"
  by (simp add: addBook_def sent_defs)

lemma sent_updateBook:
  "filter command (new_events s (snd (updateBook t i a b c y s)))
     = [ExecParams conn' ''CALL sp_update_book($1, $2, $3, $4, $5, $6)''
          [t, to_string i, a, b, c, to_string y]]"
  by (simp add: updateBook_def sent_defs)

lemma sent_deleteBookByTitle:
  "filter command (new_events s (snd (deleteBookByTitle t a s)))
     = [ExecParams conn' ''CALL sp_delete_book_by_title($1, $2)'' [t, a]]"
  by (simp add: deleteBookByTitle_def sent_defs)

lemma sent_createDBUser:
  "filter command (new_events s (snd (createDBUser u p m s)))
     = [ExecParams conn' ''CALL sp_create_db_user($1, $2, $3)'' [u, p, m]]"
  by (simp add: createDBUser_def sent_defs)

lemma sent_searchBookByTitle:
  "filter command (new_events s (snd (searchBookByTitle t f s)))
     = [ExecParams conn' ''SELECT * FROM sp_search_book_by_title($1, $2)'' [t, f]]"
  by (simp add: searchBookByTitle_def sent_defs split: sum.splits)

lemma sent_createDatabase:
  "filter command (new_events s (snd (createDatabase d s)))
     = (if fst (accept (backend s)
                  (events s @ [SetDbLogin ''localhost'' ''5432'' ''postgres'' (user' s) (password' s)]))
           = CONNECTION_OK
        then [ExecParams connTemp ''CALL sp_create_database($1)'' [d]] else [])"
  by (simp add: createDatabase_def sent_defs)

lemma sent_dropDatabase:
  "filter command (new_events s (snd (dropDatabase d s)))
     = (if fst (accept (backend s)
                  (events s @ [SetDbLogin ''localhost'' ''5432'' ''postgres'' (user' s) (password' s)]))
           = CONNECTION_OK
        then [ExecParams connTemp ''CALL sp_drop_database($1)'' [d]] else [])"
  by (simp add: dropDatabase_def sent_defs)

section \<open>Integers as text, there and back\<close>

lemma of_char_digit_char: "d < 10 \<Longrightarrow> (of_char (digit_char d) :: nat) = 48 + d"
  by (simp add: digit_char_def)

lemma isdigit_digit_char: "d < 10 \<Longrightarrow> isdigit (digit_char d)"
  by (simp add: isdigit_def of_char_digit_char)

lemma isdigit_not_space: "isdigit c \<Longrightarrow> \<not> isspace c"
  by (auto simp: isdigit_def isspace_def)

lemma isdigit_not_sign: "isdigit c \<Longrightarrow> c \<noteq> CHR ''-'' \<and> c \<noteq> CHR ''+''"
  by (auto simp: isdigit_def)

lemma digits_isdigit: "c \<in> set (digits n) \<Longrightarrow> isdigit c"
proof (induction n arbitrary: c rule: digits.induct)
  case (1 n)
  show ?case
  proof (cases "n < 10")
    case True
    then show ?thesis using "1.prems" by (simp add: digits.simps [of n] isdigit_digit_char)
  next
    case False
    then show ?thesis using "1.prems" "1.IH"
      by (auto simp: digits.simps [of n] isdigit_digit_char)
  qed
qed

lemma digits_not_Nil: "digits n \<noteq> []"
  by (simp add: digits.simps [of n])

lemma decimal_snoc: "decimal acc (cs @ [c]) = decimal acc cs * 10 + (of_char c - 48)"
  by (induction cs arbitrary: acc) auto

lemma decimal_digits: "decimal 0 (digits n) = n"
proof (induction n rule: digits.induct)
  case (1 n)
  show ?case
  proof (cases "n < 10")
    case True
    then show ?thesis by (simp add: digits.simps [of n] of_char_digit_char)
  next
    case False
    then show ?thesis using "1.IH"
      by (simp add: digits.simps [of n] decimal_snoc of_char_digit_char)
  qed
qed

lemma takeWhile_digits: "takeWhile isdigit (digits n) = digits n"
  by (simp add: takeWhile_eq_all_conv digits_isdigit)

lemma digits_hd: "\<exists>c cs. digits n = c # cs \<and> isdigit c"
  using digits_not_Nil [of n] digits_isdigit [of _ n] by (cases "digits n") auto

lemma stoi_digits:
  assumes "int n \<le> INT_MAX"
  shows "stoi (digits n) = Inr (int n)"
proof -
  obtain c cs where d: "digits n = c # cs" "isdigit c" using digits_hd by blast
  have dw: "dropWhile isspace (digits n) = digits n"
    using d isdigit_not_space [OF d(2)] by simp
  have neg: "(case digits n of [] \<Rightarrow> False | c # x \<Rightarrow> c = CHR ''-'') = False"
    using d isdigit_not_sign [OF d(2)] by simp
  have sign: "(case digits n of [] \<Rightarrow> []
               | c # cs \<Rightarrow> if c = CHR ''-'' \<or> c = CHR ''+'' then cs else digits n) = digits n"
    using d isdigit_not_sign [OF d(2)] by simp
  have lo: "INT_MIN \<le> int n" by (simp add: INT_MIN_def)
  show ?thesis
    unfolding stoi_def Let_def dw neg sign takeWhile_digits decimal_digits
    using assms lo digits_not_Nil [of n] by simp
qed

lemma stoi_minus_digits:
  assumes "INT_MIN \<le> - int n"
  shows "stoi (CHR ''-'' # digits n) = Inr (- int n)"
proof -
  have sp: "\<not> isspace CHR ''-''" by (simp add: isspace_def)
  have dw: "dropWhile isspace (CHR ''-'' # digits n) = CHR ''-'' # digits n"
    using sp by simp
  have hi: "- int n \<le> INT_MAX" by (simp add: INT_MAX_def)
  show ?thesis
    unfolding stoi_def Let_def dw
    using assms hi digits_not_Nil [of n] by (simp add: takeWhile_digits decimal_digits)
qed

lemma stoi_to_string: "in_int n \<Longrightarrow> stoi (to_string n) = Inr n"
  using stoi_digits [of "nat n"] stoi_minus_digits [of "nat (- n)"]
  by (auto simp: to_string_def in_int_def)


lemma decode_rows_render:
  assumes "tuples res = map render bs"
    and "\<forall>b\<in>set bs. in_int (id' b) \<and> in_int (year b)"
  shows "i \<le> length bs \<Longrightarrow> decode_rows res i (length bs) books = Inr (books @ drop i bs)"
proof (induction "length bs - i" arbitrary: i books)
  case 0
  then show ?case by (simp add: decode_rows.simps [of res i])
next
  case (Suc k)
  then have i: "i < length bs" by simp
  then have b: "bs ! i \<in> set bs" by simp
  have row: "tuples res ! i = render (bs ! i)" using assms(1) i by simp
  have c0: "stoi (PQgetvalue res i 0) = Inr (id' (bs ! i))"
    using assms(2) b by (simp add: PQgetvalue_def row render_def stoi_to_string)
  have c4: "stoi (PQgetvalue res i 4) = Inr (year (bs ! i))"
    using assms(2) b by (simp add: PQgetvalue_def row render_def stoi_to_string)
  have rest: "decode_rows res (i + 1) (length bs) (books @ [bs ! i])
      = Inr ((books @ [bs ! i]) @ drop (i + 1) bs)"
    using Suc.hyps(1) [of "i + 1" "books @ [bs ! i]"] Suc.hyps(2) i by simp
  have book: "\<lparr>id' = id' (bs ! i), title = PQgetvalue res i (Suc 0), author = PQgetvalue res i 2,
      publisher = PQgetvalue res i 3, year = year (bs ! i)\<rparr> = bs ! i"
    by (simp add: PQgetvalue_def row render_def)
  show ?case
    using i rest by (simp add: decode_rows.simps [of res i] c0 c4 book Cons_nth_drop_Suc)
qed

lemma searchBookByTitle_decodes:
  assumes "reply_result (respond (backend s)
             (events s @ [ExecParams conn' ''SELECT * FROM sp_search_book_by_title($1, $2)'' [t, f]]))
           = \<lparr>resultStatus = PGRES_TUPLES_OK, tuples = map render bs\<rparr>"
    and "\<forall>b\<in>set bs. in_int (id' b) \<and> in_int (year b)"
  shows "fst (searchBookByTitle t f s) = Value bs"
proof -
  let ?res = "\<lparr>resultStatus = PGRES_TUPLES_OK, tuples = map render bs\<rparr>"
  have "decode_rows ?res 0 (length bs) [] = Inr ([] @ drop 0 bs)"
    by (rule decode_rows_render [OF _ assms(2)]) simp_all
  then show ?thesis
    using assms(1)
    by (simp add: searchBookByTitle_def PQexecParams_def submit_eq io_bind_def io_return_def
        PQntuples_def)
qed

lemma dispatch_9: "dispatch 9 adm t = io_bind (searchBookByTitle t []) printBooks"
  by (simp add: dispatch_def)

lemma dispatch_8:
  assumes "cin s = Line f # rest"
  shows "dispatch 8 adm t s =
     io_bind (searchBookByTitle t f) printBooks
       (s\<lparr>trace := trace s @ [(g_printNotices s, Stdout ''Enter part of the Title to search: '')],
          cin := rest\<rparr>)"
  using assms
  by (simp add: dispatch_def io_then_def io_bind_def cout_def emit_def getline_def)

section \<open>The flag during a pass\<close>





section \<open>The whole run\<close>

lemma grows_refl: "grows t s s"
  by (simp add: grows_def)

lemma grows_trans:
  assumes "grows t s s1" and "grows t s1 s2"
  shows "grows t s s2"
proof -
  from assms(1) obtain n1 where n1: "trace s1 = trace s @ n1"
    "list_all (\<lambda>x. on_table t (snd x)) n1" by (auto simp: grows_def)
  from assms(2) obtain n2 where n2: "trace s2 = trace s1 @ n2"
    "list_all (\<lambda>x. on_table t (snd x)) n2" by (auto simp: grows_def)
  have "trace s2 = trace s @ (n1 @ n2) \<and> list_all (\<lambda>x. on_table t (snd x)) (n1 @ n2)"
    using n1 n2 by simp
  then have "\<exists>new. trace s2 = trace s @ new \<and> list_all (\<lambda>x. on_table t (snd x)) new"
    by blast
  then show ?thesis using assms by (auto simp: grows_def)
qed

lemma run_rel_grows: "run_rel t s s1 \<Longrightarrow> grows t s s1"
  by (auto simp: run_rel_def grows_def)

lemma grows_emit: "on_table t e \<Longrightarrow> grows t s (s\<lparr>trace := trace s @ [(b, e)]\<rparr>)"
  by (simp add: grows_def)

lemma setup_DBManager: "setup_rel t s (snd (DBManager d u p s))"
  by (simp add: DBManager_def connect_def run_defs setup_rel_def grows_def echoed_def
      list_all_iff)

lemma setup_initProcedures: "setup_rel t s (snd (initProcedures s))"
  by (simp add: initProcedures_def run_defs setup_rel_def grows_def echoed_def list_all_iff)

lemma DBManager_outcome: "fst (DBManager d u p s) \<noteq> Halt h"
  by (simp add: DBManager_def connect_def run_defs)

lemma initProcedures_outcome: "fst (initProcedures s) \<noteq> Halt h"
  by (simp add: initProcedures_def run_defs)

lemma operate_eq:
  "operate s =
     (case cin s of
        [] \<Rightarrow> (Halt AwaitingInput,
               s\<lparr>trace := trace s @ [(g_printNotices s, Stdout (''Connection successful.'' @ endl)),
                    (g_printNotices s, Stdout ''Enter table name for operations: '')]\<rparr>)
      | Num n # rest \<Rightarrow> (Halt MalformedInput,
               s\<lparr>trace := trace s @ [(g_printNotices s, Stdout (''Connection successful.'' @ endl)),
                    (g_printNotices s, Stdout ''Enter table name for operations: '')]\<rparr>)
      | Line t # rest \<Rightarrow>
          menuLoop (s\<lparr>trace := trace s @ [(g_printNotices s, Stdout (''Connection successful.'' @ endl)),
                    (g_printNotices s, Stdout ''Enter table name for operations: '')],
                      cin := rest, tableName := t, exitFlag := False\<rparr>))"
  by (simp add: operate_def run_defs getline_def set_tableName_def set_exitFlag_def
      split: list.splits answer.splits)

lemma grows_operate: "grows (table_answer (cin s)) s (snd (operate s))"
proof (cases "cin s")
  case Nil
  then show ?thesis by (simp add: operate_eq grows_def)
next
  case (Cons a rest)
  show ?thesis
  proof (cases a)
    case (Num n)
    then show ?thesis using Cons by (simp add: operate_eq grows_def)
  next
    case (Line t)
    let ?s1 = "s\<lparr>trace := trace s @ [(g_printNotices s, Stdout (''Connection successful.'' @ endl)),
                    (g_printNotices s, Stdout ''Enter table name for operations: '')],
                      cin := rest, tableName := t, exitFlag := False\<rparr>"
    have "grows t s ?s1" by (simp add: grows_def)
    moreover have "grows t ?s1 (snd (menuLoop ?s1))"
      using run_menuLoop [of ?s1] by (simp add: run_rel_grows)
    ultimately have "grows t s (snd (menuLoop ?s1))" by (rule grows_trans)
    then show ?thesis using Cons Line by (simp add: operate_eq table_answer_def)
  qed
qed

lemma grows_finish: "grows t s s1 \<Longrightarrow> grows t s (snd (PQfinish c s1))"
  by (auto simp: PQfinish_def emit_def grows_def)

lemma grows_provisioned:
  "grows (table_answer (cin s)) s (snd (with_DBManager (io_then initProcedures operate) s))"
proof -
  let ?t = "table_answer (cin s)"
  obtain r s1 where i: "initProcedures s = (r, s1)" by (cases "initProcedures s")
  have su: "setup_rel ?t s s1" using setup_initProcedures [of ?t s] i by simp
  then have g: "grows ?t s s1" and c: "cin s1 = cin s" by (simp_all add: setup_rel_def)
  show ?thesis
  proof (cases r)
    case (Value u)
    have "grows ?t s1 (snd (operate s1))" using grows_operate [of s1] c by simp
    with g have go: "grows ?t s (snd (operate s1))" by (rule grows_trans)
    obtain r2 s2 where o: "operate s1 = (r2, s2)" by (cases "operate s1")
    then show ?thesis using i Value go grows_finish [of ?t s s2 conn']
      by (cases r2) (simp_all add: with_DBManager_def io_then_def io_bind_def)
  next
    case (Raise e)
    then show ?thesis using i g grows_finish [of ?t s s1 conn']
      by (simp add: with_DBManager_def io_then_def io_bind_def)
  next
    case (Halt h)
    then show ?thesis using i initProcedures_outcome [of s h] by simp
  qed
qed

lemma grows_managed:
  "grows (table_answer (cin s)) s
     (snd (io_then (DBManager d u p) (with_DBManager (io_then initProcedures operate)) s))"
proof -
  let ?t = "table_answer (cin s)"
  obtain r s1 where m: "DBManager d u p s = (r, s1)" by (cases "DBManager d u p s")
  have su: "setup_rel ?t s s1" using setup_DBManager [of ?t s d u p] m by simp
  then have g: "grows ?t s s1" and c: "cin s1 = cin s" by (simp_all add: setup_rel_def)
  show ?thesis
  proof (cases r)
    case (Value u)
    have "grows ?t s1 (snd (with_DBManager (io_then initProcedures operate) s1))"
      using grows_provisioned [of s1] c by simp
    with g have "grows ?t s (snd (with_DBManager (io_then initProcedures operate) s1))"
      by (rule grows_trans)
    then show ?thesis using m Value by (simp add: io_then_def io_bind_def)
  next
    case (Raise e)
    then show ?thesis using m g by (simp add: io_then_def io_bind_def)
  next
    case (Halt h)
    then show ?thesis using m g by (simp add: io_then_def io_bind_def)
  qed
qed

lemma session_start:
  assumes "cin s = Line d # Line u # Line p # rest"
  shows "session s =
     io_then (DBManager d u p) (with_DBManager (io_then initProcedures operate))
       (s\<lparr>trace := trace s @ [(g_printNotices s, Stdout ''Enter database name: ''),
                                (g_printNotices s, Stdout ''Enter username: ''),
                                (g_printNotices s, Stdout ''Enter password: '')],
          cin := rest, isAdmin := (u = ''admin'')\<rparr>)"
  using assms
  by (simp add: session_def io_then_def io_bind_def cout_def emit_def getline_def set_isAdmin_def)

lemma main_eq:
  "main s =
     (case session s of
        (Value u, s1) \<Rightarrow> (Value 0, s1)
      | (Raise e, s1) \<Rightarrow>
          (Value 0, s1\<lparr>trace := trace s1 @ [(g_printNotices s1, Stderr (''Critical error: '' @ what e @ endl))]\<rparr>)
      | (Halt h, s1) \<Rightarrow> (Halt h, s1))"
  by (simp add: main_def try_catch_def io_then_def io_bind_def io_return_def cerr_def emit_def
      split: prod.splits outcome.splits)

lemma grows_main:
  assumes "cin s = Line d # Line u # Line p # rest"
  shows "isAdmin (snd (main s)) = (u = ''admin'') \<and>
         (tableName (snd (main s)) = tableName s \<or> tableName (snd (main s)) = table_answer rest) \<and>
         list_all (on_table (table_answer rest)) (new_events s (snd (main s)))"
proof -
  let ?t = "table_answer rest"
  let ?s1 = "s\<lparr>trace := trace s @ [(g_printNotices s, Stdout ''Enter database name: ''),
                                (g_printNotices s, Stdout ''Enter username: ''),
                                (g_printNotices s, Stdout ''Enter password: '')],
          cin := rest, isAdmin := (u = ''admin'')\<rparr>"
  obtain r s2 where se: "session s = (r, s2)" by (cases "session s")
  then have "snd (io_then (DBManager d u p) (with_DBManager (io_then initProcedures operate)) ?s1) = s2"
    by (simp add: session_start [OF assms])
  then have "grows ?t ?s1 s2"
    using grows_managed [of ?s1 d u p] by simp
  then obtain new where a: "isAdmin s2 = (u = ''admin'')"
    and tn: "tableName s2 = tableName s \<or> tableName s2 = ?t"
    and tr: "trace s2 = trace ?s1 @ new" and ok: "list_all (\<lambda>x. on_table ?t (snd x)) new"
    by (auto simp: grows_def)
  have ok2: "list_all (on_table ?t) (map snd new)" using ok by (simp add: list_all_iff)
  show ?thesis
    using se a tn tr ok2
    by (cases r) (simp_all add: main_eq new_events_def)
qed

lemma isAdmin_iteration: "isAdmin (snd (iteration s)) = isAdmin s"
  using run_iteration [of s] by (simp add: run_rel_def)

lemma isAdmin_menuLoop: "isAdmin (snd (menuLoop s)) = isAdmin s"
  using run_menuLoop [of s] by (simp add: run_rel_def)

lemmas whole_run_defs =
  main_eq session_start initial_def DBManager_def connect_def run_defs
  with_DBManager_def initProcedures_def operate_eq echoed_def
  menuLoop.simps iteration_eq attempt_eq dispatch_def set_exitFlag_def after_menu_def
  INT_MIN_def INT_MAX_def

lemma tableName_iteration: "tableName (snd (iteration s)) = tableName s"
  using run_iteration [of s] by (simp add: run_rel_def)

lemma tableName_menuLoop: "tableName (snd (menuLoop s)) = tableName s"
  using run_menuLoop [of s] by (simp add: run_rel_def)

lemma on_table_menuLoop: "list_all (on_table (tableName s)) (new_events s (snd (menuLoop s)))"
proof -
  obtain new where "trace (snd (menuLoop s)) = trace s @ new"
    and "list_all (\<lambda>x. on_table (tableName s) (snd x)) new"
    using run_menuLoop [of s] by (auto simp: run_rel_def)
  then show ?thesis by (simp add: new_events_def list_all_iff)
qed

lemma operate_reads_table:
  "cin s = Line t # rest \<Longrightarrow>
   operate s =
     menuLoop (s\<lparr>trace := trace s @ [(g_printNotices s, Stdout (''Connection successful.'' @ endl)),
                    (g_printNotices s, Stdout ''Enter table name for operations: '')],
                cin := rest, tableName := t, exitFlag := False\<rparr>)"
  by (simp add: operate_eq)

lemma refused_returns:
  assumes "cin s = Line d # Line u # Line p # rest"
    and "fst (accept (backend s)
            (events s @ [Stdout ''Enter database name: '', Stdout ''Enter username: '',
                         Stdout ''Enter password: '',
                         ConnectDb (''host=localhost port=5432 dbname='' @ d @ '' user='' @ u
                                    @ '' password='' @ p)])) \<noteq> CONNECTION_OK"
  shows "fst (main s) = Value 0"
  using assms
  by (simp add: main_eq session_start DBManager_def connect_def run_defs)

lemma on_table_fixed_text: "on_table t e \<Longrightarrow> fixed_text e"
  by (cases e) simp_all

lemma fixed_text_main:
  "list_all fixed_text
     (events (snd (main (initial srv (Line dbName # Line username # Line password # rest)))))"
proof -
  let ?s0 = "initial srv (Line dbName # Line username # Line password # rest)"
  have "cin ?s0 = Line dbName # Line username # Line password # rest"
    by (simp add: initial_def)
  from grows_main [OF this]
  have "list_all (on_table (table_answer rest)) (events (snd (main ?s0)))"
    by (simp add: new_events_def events_def initial_def)
  then show ?thesis by (auto simp: list_all_iff intro: on_table_fixed_text)
qed

lemma session_short:
  assumes "\<forall>d u p rest. cin s \<noteq> Line d # Line u # Line p # rest"
  shows "list_all fixed_text (new_events s (snd (main s)))"
  using assms
  by (auto simp: main_eq session_def io_then_def io_bind_def cout_def emit_def getline_def
      new_events_def split: list.splits answer.splits)

lemma fixed_text_run: "list_all fixed_text (events (snd (main (initial srv answers))))"
proof (cases "\<exists>d u p rest. answers = Line d # Line u # Line p # rest")
  case True
  then show ?thesis using fixed_text_main by auto
next
  case False
  then have "\<forall>d u p rest. cin (initial srv answers) \<noteq> Line d # Line u # Line p # rest"
    by (simp add: initial_def)
  from session_short [OF this] show ?thesis
    by (simp add: new_events_def events_def initial_def)
qed

section \<open>Notices in a whole run\<close>























lemma print_each_eq:
  "print_each bs s =
     (Value (), s\<lparr>trace := trace s @ map (\<lambda>b. (g_printNotices s, Stdout (book_line b))) bs\<rparr>)"
  by (induction bs arbitrary: s)
     (simp_all add: io_return_def io_then_def io_bind_def cout_def emit_def)

lemma stoi_samples:
  "stoi ''1'' = Inr 1" "stoi ''2'' = Inr 2" "stoi ''1965'' = Inr 1965"
  "stoi [] = Inl (invalid_argument ''stoi'')"
  by code_simp+

section \<open>The claims\<close>




text \<open>
  C1, as the claim states it, fails for the number of the ``create user'' choice: in a
  restricted session 10 is the exit choice, so the pass ends the loop and writes no
  diagnostic line.
\<close>

theorem restricted_choice_10_counterexample:
  "new_events (at_menu quiet False ''books'' [Num 10])
       (snd (iteration (at_menu quiet False ''books'' [Num 10])))
     = map Stdout (menu_lines False)
   \<and> Stdout invalid_message \<notin> set (map Stdout (menu_lines False))
   \<and> fst (iteration (at_menu quiet False ''books'' [Num 10])) = Value ()
   \<and> exitFlag (snd (iteration (at_menu quiet False ''books'' [Num 10])))"
proof -
  let ?s = "at_menu quiet False ''books'' [Num 10]"
  have "iteration ?s = (Value (), (after_menu ?s)\<lparr>cin := [], exitFlag := True\<rparr>)"
    by (rule iteration_exit)
       (simp_all add: at_menu_def initial_def exit_choice_def INT_MIN_def INT_MAX_def)
  moreover have "isAdmin ?s = False" by (simp add: at_menu_def initial_def)
  ultimately show ?thesis
    by (simp add: new_events_after_menu menu_lines_def invalid_message_def endl_def image_iff)
qed

text \<open>
  C1, amended. In a restricted session the choices 1 to 7, and for either role every choice
  no branch takes, are rejected locally: the pass writes the menu and the diagnostic line
  and nothing reaches the server. In a restricted session the choice 10 is the exit: the
  pass writes the menu only, raises the exit flag, and nothing reaches the server.
\<close>

theorem rejected_choice_is_local:
  assumes "cin s = Num c # rest" and "INT_MIN \<le> c \<and> c \<le> INT_MAX"
  shows "(rejected c (isAdmin s) \<longrightarrow>
            fst (iteration s) = Value () \<and>
            new_events s (snd (iteration s))
              = map Stdout (menu_lines (isAdmin s)) @ [Stdout invalid_message] \<and>
            \<not> list_ex remote (new_events s (snd (iteration s)))) \<and>
         (\<not> isAdmin s \<and> c = 10 \<longrightarrow>
            fst (iteration s) = Value () \<and> exitFlag (snd (iteration s)) \<and>
            new_events s (snd (iteration s)) = map Stdout (menu_lines (isAdmin s)) \<and>
            \<not> list_ex remote (new_events s (snd (iteration s)))) \<and>
         (\<not> isAdmin s \<and> 1 \<le> c \<and> c \<le> 7 \<longrightarrow> rejected c (isAdmin s))"
proof -
  have "rejected c (isAdmin s) \<longrightarrow>
            fst (iteration s) = Value () \<and>
            new_events s (snd (iteration s))
              = map Stdout (menu_lines (isAdmin s)) @ [Stdout invalid_message] \<and>
            \<not> list_ex remote (new_events s (snd (iteration s)))"
    using iteration_rejected [OF assms]
    by (simp add: new_events_rejected remote_menu)
  moreover have "\<not> isAdmin s \<and> c = 10 \<longrightarrow>
            fst (iteration s) = Value () \<and> exitFlag (snd (iteration s)) \<and>
            new_events s (snd (iteration s)) = map Stdout (menu_lines (isAdmin s)) \<and>
            \<not> list_ex remote (new_events s (snd (iteration s)))"
    using iteration_exit [OF assms]
    by (simp add: new_events_after_menu remote_menu exit_choice_def)
  moreover have "\<not> isAdmin s \<and> 1 \<le> c \<and> c \<le> 7 \<longrightarrow> rejected c (isAdmin s)"
    by (simp add: rejected_def)
  ultimately show ?thesis by blast
qed

theorem rejected_choice_is_local_witness:
  "new_events (at_menu quiet False ''books'' [Num 3])
       (snd (iteration (at_menu quiet False ''books'' [Num 3])))
     = map Stdout (menu_lines False) @ [Stdout invalid_message]
   \<and> new_events (at_menu quiet True ''books'' [Num 12])
       (snd (iteration (at_menu quiet True ''books'' [Num 12])))
     = map Stdout (menu_lines True) @ [Stdout invalid_message]
   \<and> new_events (at_menu quiet False ''books'' [Num 10])
       (snd (iteration (at_menu quiet False ''books'' [Num 10])))
     = map Stdout (menu_lines False)"
  using rejected_choice_is_local [of "at_menu quiet False ''books'' [Num 3]" 3 "[]"]
    rejected_choice_is_local [of "at_menu quiet True ''books'' [Num 12]" 12 "[]"]
    rejected_choice_is_local [of "at_menu quiet False ''books'' [Num 10]" 10 "[]"]
  by (simp add: at_menu_def initial_def rejected_def INT_MIN_def INT_MAX_def)

text \<open>
  C3 fails on the code for the two read actions. When the command of choice 9 (or 8) fails,
  the line written to the error stream is the static description alone: the server's
  message is dropped. The sibling actions, which go through \<open>checkResult\<close>, append it, as
  choice 4 shows against the same server. In both cases the failure is written once, the
  command is not sent again and the pass ends normally.
\<close>

theorem search_failure_drops_server_message:
  "new_events (at_menu (failing ''ERROR: permission denied'') False ''books'' [Num 9])
     (snd (iteration (at_menu (failing ''ERROR: permission denied'') False ''books'' [Num 9])))
   = map Stdout (menu_lines False)
     @ [ExecParams conn' ''SELECT * FROM sp_search_book_by_title($1, $2)'' [''books'', []],
        Stderr (''Error: Error searching for book'' @ endl)]
   \<and> fst (iteration (at_menu (failing ''ERROR: permission denied'') False ''books'' [Num 9]))
     = Value ()
   \<and> new_events (at_menu (failing ''ERROR: permission denied'') True ''books'' [Num 4])
     (snd (iteration (at_menu (failing ''ERROR: permission denied'') True ''books'' [Num 4])))
   = map Stdout (menu_lines True)
     @ [ExecParams conn' ''CALL sp_clear_table($1)'' [''books''],
        Stderr (''Error: Error clearing table: ERROR: permission denied'' @ endl)]"
  by (simp add: iteration_eq attempt_eq dispatch_def searchBookByTitle_def clearTable_def run_defs
      at_menu_def initial_def failing_def after_menu_def new_events_def INT_MIN_def INT_MAX_def
      comp_def echoed_def)

text \<open>
  C5 fails on the code where the command on the administrative connection fails: the
  exception of \<open>checkResult\<close> leaves \<open>createDatabase\<close> and \<open>dropDatabase\<close> before
  \<^verbatim>\<open>PQfinish(connTemp)\<close>, so the connection is opened and never closed. It is closed when
  the connection attempt itself fails and when the command succeeds. In every case the
  pass ends normally: the failure stays with the one operation.
\<close>

theorem failed_call_leaves_admin_connection_open:
  "new_events (at_menu (failing ''ERROR: permission denied'') True ''books'' [Num 1, Line ''shop''])
     (snd (iteration (at_menu (failing ''ERROR: permission denied'') True ''books'' [Num 1, Line ''shop''])))
   = map Stdout (menu_lines True)
     @ [Stdout ''Enter the name of the database to create: '',
        SetDbLogin ''localhost'' ''5432'' ''postgres'' ''admin'' ''secret'',
        ExecParams connTemp ''CALL sp_create_database($1)'' [''shop''],
        Stderr (''Error: Error creating database: ERROR: permission denied'' @ endl)]
   \<and> new_events (at_menu (failing ''ERROR: permission denied'') True ''books'' [Num 2, Line ''shop''])
     (snd (iteration (at_menu (failing ''ERROR: permission denied'') True ''books'' [Num 2, Line ''shop''])))
   = map Stdout (menu_lines True)
     @ [Stdout ''Enter the name of the database to drop: '',
        SetDbLogin ''localhost'' ''5432'' ''postgres'' ''admin'' ''secret'',
        ExecParams connTemp ''CALL sp_drop_database($1)'' [''shop''],
        Stderr (''Error: Error dropping database: ERROR: permission denied'' @ endl)]
   \<and> new_events (at_menu (refusing ''FATAL: no route'') True ''books'' [Num 1, Line ''shop''])
     (snd (iteration (at_menu (refusing ''FATAL: no route'') True ''books'' [Num 1, Line ''shop''])))
   = map Stdout (menu_lines True)
     @ [Stdout ''Enter the name of the database to create: '',
        SetDbLogin ''localhost'' ''5432'' ''postgres'' ''admin'' ''secret'',
        Finish connTemp,
        Stderr (''Error: Error connecting to postgres: FATAL: no route'' @ endl)]
   \<and> new_events (at_menu quiet True ''books'' [Num 1, Line ''shop''])
     (snd (iteration (at_menu quiet True ''books'' [Num 1, Line ''shop''])))
   = map Stdout (menu_lines True)
     @ [Stdout ''Enter the name of the database to create: '',
        SetDbLogin ''localhost'' ''5432'' ''postgres'' ''admin'' ''secret'',
        ExecParams connTemp ''CALL sp_create_database($1)'' [''shop''],
        Finish connTemp,
        Stdout (''Database created.'' @ endl)]"
  by (simp add: iteration_eq attempt_eq dispatch_def createDatabase_def dropDatabase_def
      getline_def run_defs at_menu_def initial_def failing_def refusing_def quiet_def
      after_menu_def new_events_def INT_MIN_def INT_MAX_def comp_def echoed_def)

text \<open>
  C6. Each of the dispatcher's operations sends one command whose text is a fixed literal,
  whatever the state and the arguments; the table and database names, the book fields
  (integers through \<open>to_string\<close>) and the credentials of a new user travel as its
  positional parameters. The two database operations send theirs on the administrative
  connection, and nothing when that connection is refused. In a whole run, whatever the
  server does and the operator enters, every parametrised command has one of these texts.
\<close>

theorem sql_text_is_fixed:
  "filter command (new_events s (snd (createDatabase newDb s)))
     = (if fst (accept (backend s)
                  (events s @ [SetDbLogin ''localhost'' ''5432'' ''postgres'' (user' s) (password' s)]))
           = CONNECTION_OK
        then [ExecParams connTemp ''CALL sp_create_database($1)'' [newDb]] else []) \<and>
   filter command (new_events s (snd (dropDatabase dropDb s)))
     = (if fst (accept (backend s)
                  (events s @ [SetDbLogin ''localhost'' ''5432'' ''postgres'' (user' s) (password' s)]))
           = CONNECTION_OK
        then [ExecParams connTemp ''CALL sp_drop_database($1)'' [dropDb]] else []) \<and>
   filter command (new_events s (snd (createTable t s)))
     = [ExecParams conn' ''CALL sp_create_table($1)'' [t]] \<and>
   filter command (new_events s (snd (clearTable t s)))
     = [ExecParams conn' ''CALL sp_clear_table($1)'' [t]] \<and>
   filter command (new_events s (snd (addBook t a b c y s)))
     = [ExecParams conn' ''CALL sp_add_book($1, $2, $3, $4, $5)'' [t, a, b, c, to_string y]] \<and>
   filter command (new_events s (snd (updateBook t i a b c y s)))
     = [ExecParams conn' ''CALL sp_update_book($1, $2, $3, $4, $5, $6)''
          [t, to_string i, a, b, c, to_string y]] \<and>
   filter command (new_events s (snd (deleteBookByTitle t a s)))
     = [ExecParams conn' ''CALL sp_delete_book_by_title($1, $2)'' [t, a]] \<and>
   filter command (new_events s (snd (searchBookByTitle t f s)))
     = [ExecParams conn' ''SELECT * FROM sp_search_book_by_title($1, $2)'' [t, f]] \<and>
   filter command (new_events s (snd (createDBUser u p m s)))
     = [ExecParams conn' ''CALL sp_create_db_user($1, $2, $3)'' [u, p, m]] \<and>
   list_all fixed_text (events (snd (main (initial srv answers))))"
  by (simp only: sent_createDatabase sent_dropDatabase sent_createTable sent_clearTable
      sent_addBook sent_updateBook sent_deleteBookByTitle sent_searchBookByTitle
      sent_createDBUser fixed_text_run simp_thms)

theorem sql_text_is_fixed_witness:
  "filter command (new_events (at_menu quiet True ''books'' [])
      (snd (addBook ''books; DROP TABLE books'' ''Dune'' ''Herbert'' ''Ace'' 1965
              (at_menu quiet True ''books'' []))))
     = [ExecParams conn' ''CALL sp_add_book($1, $2, $3, $4, $5)''
          [''books; DROP TABLE books'', ''Dune'', ''Herbert'', ''Ace'', ''1965'']]"
proof -
  have "to_string 1965 = ''1965''"
    by code_simp
  then show ?thesis
    using sql_text_is_fixed [of "at_menu quiet True ''books'' []" _ _
        "''books; DROP TABLE books''" "''Dune''" "''Herbert''" "''Ace''" 1965]
    by simp
qed

text \<open>
  C8 fails on the code for a row without a year. Choice 9 is the search with the empty
  filter, and rows whose two \<^verbatim>\<open>INT\<close> columns hold integers are decoded and printed one by
  one in the server's order, as the last part shows. But the table the client creates
  allows a year of SQL NULL, for which libpq hands out the empty string: there \<open>stoi\<close>
  throws, the search returns no record at all, not even for the rows before it, and the
  pass writes the error line only.
\<close>

theorem null_year_aborts_listing:
  "fst (searchBookByTitle ''books'' [] (at_menu (answering null_year_rows) False ''books'' [Num 9]))
     = Raise (invalid_argument ''stoi'')
   \<and> new_events (at_menu (answering null_year_rows) False ''books'' [Num 9])
        (snd (iteration (at_menu (answering null_year_rows) False ''books'' [Num 9])))
     = map Stdout (menu_lines False)
       @ [ExecParams conn' ''SELECT * FROM sp_search_book_by_title($1, $2)'' [''books'', []],
          Stderr (''Error: stoi'' @ endl)]
   \<and> new_events (at_menu (answering (map render sample_books)) False ''books'' [Num 9])
        (snd (iteration (at_menu (answering (map render sample_books)) False ''books'' [Num 9])))
     = map Stdout (menu_lines False)
       @ [ExecParams conn' ''SELECT * FROM sp_search_book_by_title($1, $2)'' [''books'', []]]
       @ map (\<lambda>b. Stdout (book_line b)) sample_books"
proof -
  let ?s = "at_menu (answering null_year_rows) False ''books'' [Num 9]"
  have d: "decode_rows \<lparr>resultStatus = PGRES_TUPLES_OK, tuples = null_year_rows\<rparr> 0 (Suc (Suc 0)) []
      = Inl (invalid_argument ''stoi'')"
    by (simp add: decode_rows.simps PQgetvalue_def null_year_rows_def stoi_samples)
  have a: "fst (searchBookByTitle ''books'' [] ?s) = Raise (invalid_argument ''stoi'')"
    using d
    by (simp add: searchBookByTitle_def run_defs PQntuples_def at_menu_def initial_def
        answering_def null_year_rows_def echoed_def)
  have b: "new_events ?s (snd (iteration ?s))
     = map Stdout (menu_lines False)
       @ [ExecParams conn' ''SELECT * FROM sp_search_book_by_title($1, $2)'' [''books'', []],
          Stderr (''Error: stoi'' @ endl)]"
    using d
    by (simp add: iteration_eq attempt_eq dispatch_def searchBookByTitle_def run_defs
        PQntuples_def at_menu_def initial_def answering_def null_year_rows_def after_menu_def
        new_events_def INT_MIN_def INT_MAX_def comp_def echoed_def)
  let ?g = "at_menu (answering (map render sample_books)) False ''books'' [Num 9]"
  have e: "decode_rows \<lparr>resultStatus = PGRES_TUPLES_OK, tuples = map render sample_books\<rparr>
      0 (length sample_books) [] = Inr ([] @ drop 0 sample_books)"
    by (rule decode_rows_render)
       (simp_all add: sample_books_def in_int_def INT_MIN_def INT_MAX_def)
  have ne: "sample_books \<noteq> []" by (simp add: sample_books_def)
  have c: "new_events ?g (snd (iteration ?g))
     = map Stdout (menu_lines False)
       @ [ExecParams conn' ''SELECT * FROM sp_search_book_by_title($1, $2)'' [''books'', []]]
       @ map (\<lambda>b. Stdout (book_line b)) sample_books"
    using e ne
    by (simp add: iteration_eq attempt_eq dispatch_def searchBookByTitle_def run_defs
        PQntuples_def at_menu_def initial_def answering_def after_menu_def printBooks_def
        print_each_eq new_events_def INT_MIN_def INT_MAX_def comp_def echoed_def)
  from a b c show ?thesis by blast
qed



text \<open>
  C2. Whatever the server does and whatever is entered afterwards, the role a run ends
  with is the truth value of ``the username entered is the text admin'', character for
  character; a pass of the loop and the loop itself leave the role as it is.
\<close>

theorem role_is_fixed_by_username:
  "isAdmin (snd (main (initial srv (Line dbName # Line username # Line password # rest))))
     = (username = ''admin'') \<and>
   isAdmin (snd (iteration s)) = isAdmin s \<and>
   isAdmin (snd (menuLoop s)) = isAdmin s"
  using grows_main [of "initial srv (Line dbName # Line username # Line password # rest)"
      dbName username password rest]
  by (simp add: isAdmin_iteration isAdmin_menuLoop initial_def)

theorem role_is_fixed_by_username_witness:
  "isAdmin (snd (main (initial quiet [Line ''library'', Line ''admin'', Line ''secret'', Line ''books'', Num 11])))
   \<and> \<not> isAdmin (snd (main (initial quiet [Line ''library'', Line ''Admin'', Line ''secret'', Line ''books'', Num 10])))
   \<and> \<not> isAdmin (snd (main (initial quiet [Line ''library'', Line ''admin '', Line ''secret''])))"
  using role_is_fixed_by_username [of quiet "''library''" "''admin''" "''secret''" "[Line ''books'', Num 11]"]
    role_is_fixed_by_username [of quiet "''library''" "''Admin''" "''secret''" "[Line ''books'', Num 10]"]
    role_is_fixed_by_username [of quiet "''library''" "''admin ''" "''secret''" "[]"]
  by simp

text \<open>
  C9. \<open>main\<close> never ends by an exception and never returns a value other than 0. When the
  body of its \<^verbatim>\<open>try\<close> block ends, \<open>main\<close> returns 0; when the body throws, \<open>main\<close> writes
  the critical error line and returns 0; \<open>main\<close> does not return only where the body
  itself does not end (the operator's input has run out or cannot be read). In particular
  a run whose connection the server refuses returns 0.
\<close>

theorem main_returns_zero:
  "(\<forall>e. fst (main s) \<noteq> Raise e) \<and>
   (\<forall>c. fst (main s) = Value c \<longrightarrow> c = 0) \<and>
   (\<forall>u. fst (session s) = Value u \<longrightarrow> main s = (Value 0, snd (session s))) \<and>
   (\<forall>e. fst (session s) = Raise e \<longrightarrow>
      main s = (Value 0, (snd (session s))\<lparr>trace := trace (snd (session s))
                   @ [(g_printNotices (snd (session s)), Stderr (''Critical error: '' @ what e @ endl))]\<rparr>)) \<and>
   (\<forall>h. fst (session s) = Halt h \<longrightarrow> main s = (Halt h, snd (session s))) \<and>
   (\<forall>d u p rest.
      cin s = Line d # Line u # Line p # rest \<and>
      fst (accept (backend s)
             (events s @ [Stdout ''Enter database name: '', Stdout ''Enter username: '',
                          Stdout ''Enter password: '',
                          ConnectDb (''host=localhost port=5432 dbname='' @ d @ '' user='' @ u
                                     @ '' password='' @ p)])) \<noteq> CONNECTION_OK
      \<longrightarrow> fst (main s) = Value 0)"
proof -
  have "(\<forall>e. fst (main s) \<noteq> Raise e) \<and>
   (\<forall>c. fst (main s) = Value c \<longrightarrow> c = 0) \<and>
   (\<forall>u. fst (session s) = Value u \<longrightarrow> main s = (Value 0, snd (session s))) \<and>
   (\<forall>e. fst (session s) = Raise e \<longrightarrow>
      main s = (Value 0, (snd (session s))\<lparr>trace := trace (snd (session s))
                   @ [(g_printNotices (snd (session s)), Stderr (''Critical error: '' @ what e @ endl))]\<rparr>)) \<and>
   (\<forall>h. fst (session s) = Halt h \<longrightarrow> main s = (Halt h, snd (session s)))"
    by (cases "session s") (auto simp: main_eq split: outcome.splits)
  then show ?thesis using refused_returns [of s] by blast
qed

theorem main_returns_zero_witness:
  "fst (main (initial (refusing ''FATAL: no route'') [Line ''library'', Line ''admin'', Line ''secret'']))
     = Value 0
   \<and> events (snd (main (initial (refusing ''FATAL: no route'')
                         [Line ''library'', Line ''admin'', Line ''secret''])))
     = [Stdout ''Enter database name: '', Stdout ''Enter username: '', Stdout ''Enter password: '',
        ConnectDb ''host=localhost port=5432 dbname=library user=admin password=secret'',
        Finish conn',
        Stderr (''Critical error: Error connecting to DB: FATAL: no route'' @ endl)]
   \<and> fst (main (initial (failing ''ERROR: permission denied'')
                  [Line ''library'', Line ''admin'', Line ''secret''])) = Value 0
   \<and> fst (main (initial quiet [Line ''library'', Line ''admin'', Line ''secret'', Line ''books'',
                  Num 3, Num 11])) = Value 0
   \<and> fst (main (initial quiet [Line ''library'', Line ''guest'', Line ''secret'', Line ''books'',
                  Num 10])) = Value 0"
proof -
  let ?s = "initial (refusing ''FATAL: no route'') [Line ''library'', Line ''admin'', Line ''secret'']"
  have "fst (session ?s) = Raise (runtime_error ''Error connecting to DB: FATAL: no route'')"
    by (simp add: whole_run_defs refusing_def)
  then have "main ?s = (Value 0, (snd (session ?s))\<lparr>trace := trace (snd (session ?s))
       @ [(g_printNotices (snd (session ?s)),
           Stderr (''Critical error: '' @ what (runtime_error ''Error connecting to DB: FATAL: no route'') @ endl))]\<rparr>)"
    using main_returns_zero [of ?s] by blast
  then have "fst (main ?s) = Value 0 \<and> events (snd (main ?s))
     = [Stdout ''Enter database name: '', Stdout ''Enter username: '', Stdout ''Enter password: '',
        ConnectDb ''host=localhost port=5432 dbname=library user=admin password=secret'',
        Finish conn',
        Stderr (''Critical error: Error connecting to DB: FATAL: no route'' @ endl)]"
    by (simp add: whole_run_defs refusing_def)
  moreover have "fst (main (initial (failing ''ERROR: permission denied'')
                  [Line ''library'', Line ''admin'', Line ''secret''])) = Value 0"
    by (simp add: whole_run_defs failing_def)
  moreover have "fst (main (initial quiet [Line ''library'', Line ''admin'', Line ''secret'',
                  Line ''books'', Num 3, Num 11])) = Value 0"
    by (simp add: whole_run_defs quiet_def createTable_def)
  moreover have "fst (main (initial quiet [Line ''library'', Line ''guest'', Line ''secret'',
                  Line ''books'', Num 10])) = Value 0"
    by (simp add: whole_run_defs quiet_def)
  ultimately show ?thesis by blast
qed

text \<open>
  C10. A pass of the loop and the loop leave the table name as it is, and every command of
  the loop for a table-scoped procedure carries it as first parameter. \<open>operate\<close>, which
  runs once the connection is set up, reads one line into the table name and enters the
  loop. So in a whole run every table-scoped command carries the fourth line entered, and
  the table name at the end is that line, or still empty when set-up did not get so far.
\<close>

theorem table_name_is_fixed:
  "tableName (snd (iteration s)) = tableName s \<and>
   tableName (snd (menuLoop s)) = tableName s \<and>
   list_all (on_table (tableName s)) (new_events s (snd (menuLoop s))) \<and>
   (\<forall>t rest. cin s = Line t # rest \<longrightarrow>
      operate s =
        menuLoop (s\<lparr>trace := trace s @ [(g_printNotices s, Stdout (''Connection successful.'' @ endl)),
                       (g_printNotices s, Stdout ''Enter table name for operations: '')],
                   cin := rest, tableName := t, exitFlag := False\<rparr>)) \<and>
   list_all (on_table tableName')
     (events (snd (main (initial srv
        (Line dbName # Line username # Line password # Line tableName' # rest))))) \<and>
   (tableName (snd (main (initial srv
        (Line dbName # Line username # Line password # Line tableName' # rest)))) = [] \<or>
    tableName (snd (main (initial srv
        (Line dbName # Line username # Line password # Line tableName' # rest)))) = tableName')"
proof -
  let ?s0 = "initial srv (Line dbName # Line username # Line password # Line tableName' # rest)"
  have "cin ?s0 = Line dbName # Line username # Line password # Line tableName' # rest"
    by (simp add: initial_def)
  from grows_main [OF this]
  have "list_all (on_table tableName') (events (snd (main ?s0))) \<and>
        (tableName (snd (main ?s0)) = [] \<or> tableName (snd (main ?s0)) = tableName')"
    by (simp add: table_answer_def new_events_def events_def initial_def)
  then show ?thesis
    using tableName_iteration tableName_menuLoop on_table_menuLoop operate_reads_table by blast
qed

theorem table_name_is_fixed_witness:
  "filter command (events (snd (main (initial quiet
      [Line ''library'', Line ''admin'', Line ''secret'', Line ''books'', Num 3, Num 4, Num 11]))))
   = [Exec conn' ''SET client_min_messages TO warning;'', Exec conn' proceduresSQL,
      ExecParams conn' ''CALL sp_create_table($1)'' [''books''],
      ExecParams conn' ''CALL sp_clear_table($1)'' [''books'']]
   \<and> list_all (on_table ''books'') (events (snd (main (initial quiet
      [Line ''library'', Line ''admin'', Line ''secret'', Line ''books'', Num 3, Num 4, Num 11]))))
   \<and> tableName (snd (main (initial quiet
      [Line ''library'', Line ''admin'', Line ''secret'', Line ''books'', Num 3, Num 4, Num 11])))
     = ''books''"
proof -
  have "filter command (events (snd (main (initial quiet
      [Line ''library'', Line ''admin'', Line ''secret'', Line ''books'', Num 3, Num 4, Num 11]))))
   = [Exec conn' ''SET client_min_messages TO warning;'', Exec conn' proceduresSQL,
      ExecParams conn' ''CALL sp_create_table($1)'' [''books''],
      ExecParams conn' ''CALL sp_clear_table($1)'' [''books'']]
   \<and> tableName (snd (main (initial quiet
      [Line ''library'', Line ''admin'', Line ''secret'', Line ''books'', Num 3, Num 4, Num 11])))
     = ''books''"
    by (simp add: whole_run_defs quiet_def createTable_def clearTable_def menu_lines_def)
  then show ?thesis
    using table_name_is_fixed [where srv = quiet and tableName' = "''books''"
        and dbName = "''library''" and username = "''admin''" and password = "''secret''"
        and rest = "[Num 3, Num 4, Num 11]"]
    by blast
qed

end
